theory Spec2Isabelle
  imports Main
begin

section \<open>Toast notification queue (src/hooks/use-toast.ts)\<close>

subsection \<open>Data model\<close>

text \<open>
  \<^verbatim>\<open>React.ReactNode\<close> and \<^verbatim>\<open>ToastActionElement\<close> values are opaque to the queue; they
  are modelled as strings. A property that may be \<^verbatim>\<open>undefined\<close> is an \<open>option\<close>.
\<close>

type_synonym node = string

text \<open>
  The \<^verbatim>\<open>onOpenChange\<close> closure built by \<^verbatim>\<open>toast()\<close> is determined by the ID it
  dismisses; any other function value is an opaque handle.
\<close>

datatype callback = DismissOnClose string | Handler nat

text \<open>
  \<^verbatim>\<open>ToasterToast = ToastProps & { id: string; title?; description?; action? }\<close>.
  The fields \<^verbatim>\<open>open\<close> and \<^verbatim>\<open>onOpenChange\<close> are the two properties of
  \<^verbatim>\<open>ToastProps\<close> the module itself writes; the remaining properties of \<^verbatim>\<open>ToastProps\<close>
  (declared in components/ui/toast) are kept as a property table \<open>others\<close>.
  The field \<^verbatim>\<open>id\<close> is named \<open>id_t\<close>.
\<close>

record ToasterToast =
  id_t :: string
  title :: "node option"
  description :: "node option"
  action :: "node option"
  "open" :: "bool option"
  onOpenChange :: "callback option"
  others :: "string \<rightharpoonup> string"

text \<open>
  \<^verbatim>\<open>Partial<ToasterToast>\<close>: every property may be missing from the object. For a
  property that is present the value may still be \<^verbatim>\<open>undefined\<close>, and the object spread
  copies it all the same: \<open>None\<close> is a missing property, \<open>Some v\<close> a present one.
  Reading \<^verbatim>\<open>action.toast.id\<close> gives \<^verbatim>\<open>undefined\<close> in both cases, hence \<open>p_id\<close> is a
  plain option.
\<close>

record PartialToast =
  p_id :: "string option"
  p_title :: "node option option"
  p_description :: "node option option"
  p_action :: "node option option"
  p_open :: "bool option option"
  p_onOpenChange :: "callback option option"
  p_others :: "string \<rightharpoonup> string option"

text \<open>\<^verbatim>\<open>Toast = Omit<ToasterToast, "id">\<close>, the argument of \<^verbatim>\<open>toast()\<close>.\<close>

record Toast =
  t_title :: "node option"
  t_description :: "node option"
  t_action :: "node option"
  t_open :: "bool option"
  t_onOpenChange :: "callback option"
  t_others :: "string \<rightharpoonup> string"

datatype Action =
    ADD_TOAST ToasterToast
  | UPDATE_TOAST PartialToast
  | DISMISS_TOAST "string option"
  | REMOVE_TOAST "string option"

record State =
  toasts :: "ToasterToast list"

definition TOAST_LIMIT :: nat where
  "TOAST_LIMIT = 1"

definition TOAST_REMOVE_DELAY :: nat where
  "TOAST_REMOVE_DELAY = 1000000"

subsection \<open>The timer table and the host's timers\<close>

text \<open>
  \<open>toastTimeouts\<close> is the module's \<^verbatim>\<open>Map<string, timeout handle>\<close>. The host's timer
  facility is the list \<open>scheduled\<close> of pending timers, each with its handle, its delay and
  the toast ID its callback closes over; \<open>next_handle\<close> is the handle the next
  \<^verbatim>\<open>setTimeout\<close> returns.
\<close>

record Env =
  toastTimeouts :: "string \<rightharpoonup> nat"
  scheduled :: "(nat \<times> nat \<times> string) list"
  next_handle :: nat

definition setTimeout :: "string \<Rightarrow> nat \<Rightarrow> Env \<Rightarrow> nat \<times> Env" where
  "setTimeout toastId delay e =
     (next_handle e,
      e\<lparr>scheduled := scheduled e @ [(next_handle e, delay, toastId)],
        next_handle := Suc (next_handle e)\<rparr>)"

definition addToRemoveQueue :: "string \<Rightarrow> Env \<Rightarrow> Env" where
  "addToRemoveQueue toastId e =
     (if toastTimeouts e toastId \<noteq> None then e
      else (let (timeout, e') = setTimeout toastId TOAST_REMOVE_DELAY e
            in e'\<lparr>toastTimeouts := (toastTimeouts e')(toastId \<mapsto> timeout)\<rparr>))"

subsection \<open>The reducer\<close>

text \<open>One property of the spread \<^verbatim>\<open>{ ...t, ...action.toast }\<close>.\<close>

definition spread :: "'a \<Rightarrow> 'a option \<Rightarrow> 'a" where
  "spread old new = (case new of None \<Rightarrow> old | Some v \<Rightarrow> v)"

definition merge :: "ToasterToast \<Rightarrow> PartialToast \<Rightarrow> ToasterToast" where
  "merge t p =
     \<lparr>id_t = spread (id_t t) (p_id p),
      title = spread (title t) (p_title p),
      description = spread (description t) (p_description p),
      action = spread (action t) (p_action p),
      open = spread (open t) (p_open p),
      onOpenChange = spread (onOpenChange t) (p_onOpenChange p),
      others = (\<lambda>k. spread (others t k) (p_others p k))\<rparr>"

text \<open>
  The reducer reads and writes the module's timer table in its \<^verbatim>\<open>DISMISS_TOAST\<close> case,
  so the model threads \<open>Env\<close> through it. \<^verbatim>\<open>if (toastId)\<close> is JavaScript truthiness:
  \<^verbatim>\<open>undefined\<close> and the empty string both take the \<^verbatim>\<open>else\<close> branch.
  \<^verbatim>\<open>slice(0, TOAST_LIMIT)\<close> is \<open>take\<close>.
\<close>

fun reducer :: "State \<Rightarrow> Action \<Rightarrow> Env \<Rightarrow> State \<times> Env" where
  "reducer state (ADD_TOAST toast) e =
     (state\<lparr>toasts := take TOAST_LIMIT (toast # toasts state)\<rparr>, e)"
| "reducer state (UPDATE_TOAST toast) e =
     (state\<lparr>toasts :=
        map (\<lambda>t. if Some (id_t t) = p_id toast then merge t toast else t) (toasts state)\<rparr>, e)"
| "reducer state (DISMISS_TOAST toastId) e =
     (let e' = (case toastId of
                  Some i \<Rightarrow>
                    if i \<noteq> [] then addToRemoveQueue i e
                    else fold (\<lambda>toast. addToRemoveQueue (id_t toast)) (toasts state) e
                | None \<Rightarrow> fold (\<lambda>toast. addToRemoveQueue (id_t toast)) (toasts state) e)
      in (state\<lparr>toasts :=
            map (\<lambda>t. if Some (id_t t) = toastId \<or> toastId = None
                      then t\<lparr>open := Some False\<rparr> else t) (toasts state)\<rparr>, e'))"
| "reducer state (REMOVE_TOAST toastId) e =
     (case toastId of
        None \<Rightarrow> (state\<lparr>toasts := []\<rparr>, e)
      | Some i \<Rightarrow> (state\<lparr>toasts := filter (\<lambda>t. id_t t \<noteq> i) (toasts state)\<rparr>, e))"

subsection \<open>Module state, dispatch and the exported operations\<close>

text \<open>
  The module's globals: the ID counter, \<open>memoryState\<close>, the timer table with the host's
  timers, and the listeners. A listener is named by a number; \<open>delivered\<close> records every
  call \<^verbatim>\<open>listener(memoryState)\<close> in order.
\<close>

record World =
  count :: nat
  memoryState :: State
  env :: Env
  listeners :: "nat list"
  delivered :: "(nat \<times> State) list"

definition initial :: World where
  "initial =
     \<lparr>count = 0, memoryState = \<lparr>toasts = []\<rparr>,
      env = \<lparr>toastTimeouts = Map.empty, scheduled = [], next_handle = 0\<rparr>,
      listeners = [], delivered = []\<rparr>"

definition dispatch :: "Action \<Rightarrow> World \<Rightarrow> World" where
  "dispatch a w =
     (let (s, e) = reducer (memoryState w) a (env w)
      in w\<lparr>memoryState := s, env := e,
           delivered := delivered w @ map (\<lambda>listener. (listener, s)) (listeners w)\<rparr>)"

definition MAX_SAFE_INTEGER :: nat where
  "MAX_SAFE_INTEGER = 9007199254740991"

text \<open>\<^verbatim>\<open>count.toString()\<close>: the decimal digits of a natural number.\<close>

fun toString :: "nat \<Rightarrow> string" where
  "toString n =
     (if n < 10 then [''0123456789'' ! n]
      else toString (n div 10) @ [''0123456789'' ! (n mod 10)])"

declare toString.simps [simp del]

definition genId :: "World \<Rightarrow> string \<times> World" where
  "genId w =
     (let c = (count w + 1) mod MAX_SAFE_INTEGER
      in (toString c, w\<lparr>count := c\<rparr>))"

text \<open>
  The object literal \<^verbatim>\<open>{ ...props, id, open: true, onOpenChange: ... }\<close> of
  \<^verbatim>\<open>toast()\<close>.
\<close>

definition new_toast :: "string \<Rightarrow> Toast \<Rightarrow> ToasterToast" where
  "new_toast i props =
     \<lparr>id_t = i, title = t_title props, description = t_description props,
      action = t_action props, open = Some True,
      onOpenChange = Some (DismissOnClose i), others = t_others props\<rparr>"

text \<open>
  \<^verbatim>\<open>toast(props)\<close> returns the ID with two closures over it; the closures are the
  functions \<open>update\<close> and \<open>dismiss\<close> below, applied to that ID.
\<close>

definition toast :: "Toast \<Rightarrow> World \<Rightarrow> string \<times> World" where
  "toast props w =
     (let (i, w') = genId w
      in (i, dispatch (ADD_TOAST (new_toast i props)) w'))"

definition update :: "string \<Rightarrow> PartialToast \<Rightarrow> World \<Rightarrow> World" where
  "update i props w = dispatch (UPDATE_TOAST (props\<lparr>p_id := Some i\<rparr>)) w"

definition dismiss :: "string \<Rightarrow> World \<Rightarrow> World" where
  "dismiss i w = dispatch (DISMISS_TOAST (Some i)) w"

text \<open>
  The callback given to \<^verbatim>\<open>setTimeout\<close>, and the host running the timer with handle
  \<open>h\<close>: a timer runs once and only while it is pending.
\<close>

definition timeout_callback :: "string \<Rightarrow> World \<Rightarrow> World" where
  "timeout_callback toastId w =
     dispatch (REMOVE_TOAST (Some toastId))
       (w\<lparr>env := (env w)\<lparr>toastTimeouts := (toastTimeouts (env w))(toastId := None)\<rparr>\<rparr>)"

definition fire :: "nat \<Rightarrow> World \<Rightarrow> World" where
  "fire h w =
     (case map_of (scheduled (env w)) h of
        None \<Rightarrow> w
      | Some (delay, toastId) \<Rightarrow>
          timeout_callback toastId
            (w\<lparr>env := (env w)\<lparr>scheduled :=
                 filter (\<lambda>entry. fst entry \<noteq> h) (scheduled (env w))\<rparr>\<rparr>))"

text \<open>
  \<^verbatim>\<open>useToast\<close>: the effect pushes the component's \<^verbatim>\<open>setState\<close> onto the listeners,
  its cleanup splices the first occurrence out.
\<close>

definition subscribe :: "nat \<Rightarrow> World \<Rightarrow> World" where
  "subscribe listener w = w\<lparr>listeners := listeners w @ [listener]\<rparr>"

definition unsubscribe :: "nat \<Rightarrow> World \<Rightarrow> World" where
  "unsubscribe listener w = w\<lparr>listeners := remove1 listener (listeners w)\<rparr>"

text \<open>Everything that can happen to the module, and a run of such events.\<close>

datatype Event =
    Dispatch Action
  | CallToast Toast
  | Fire nat
  | Subscribe nat
  | Unsubscribe nat

fun step :: "World \<Rightarrow> Event \<Rightarrow> World" where
  "step w (Dispatch a) = dispatch a w"
| "step w (CallToast props) = snd (toast props w)"
| "step w (Fire h) = fire h w"
| "step w (Subscribe l) = subscribe l w"
| "step w (Unsubscribe l) = unsubscribe l w"

definition run :: "World \<Rightarrow> Event list \<Rightarrow> World" where
  "run w evs = foldl step w evs"

text \<open>
  The records that a run of \<^verbatim>\<open>toast(props)\<close> calls creates, in call order, when the
  ID counter starts at \<open>c\<close>: each call advances the counter as \<open>genId\<close> does and builds
  its record as \<open>new_toast\<close> does.
\<close>

fun issued :: "nat \<Rightarrow> Toast list \<Rightarrow> ToasterToast list" where
  "issued c [] = []"
| "issued c (props # ps) =
     new_toast (toString ((c + 1) mod MAX_SAFE_INTEGER)) props
       # issued ((c + 1) mod MAX_SAFE_INTEGER) ps"

text \<open>
  The pending timers whose callback removes the ID \<open>i\<close>, and the consistency of the
  timer table with the host's timers: handles and IDs of pending timers are distinct, the
  IDs are those of the table, and every handle was issued before \<open>next_handle\<close>.
\<close>

definition timers_for :: "string \<Rightarrow> Env \<Rightarrow> (nat \<times> nat \<times> string) list" where
  "timers_for i e = filter (\<lambda>entry. snd (snd entry) = i) (scheduled e)"

definition timers_consistent :: "Env \<Rightarrow> bool" where
  "timers_consistent e \<longleftrightarrow>
     distinct (map fst (scheduled e))
     \<and> distinct (map (\<lambda>entry. snd (snd entry)) (scheduled e))
     \<and> (\<lambda>entry. snd (snd entry)) ` set (scheduled e) = dom (toastTimeouts e)
     \<and> (\<forall>entry \<in> set (scheduled e). fst entry < next_handle e)"

section \<open>Translation store (module TranslationContext, in src/pages/ContactUs.tsx)\<close>

subsection \<open>Data model\<close>

text \<open>
  The language codes \<^verbatim>\<open>'en' | 'fr' | 'ar'\<close>. A dictionary entry is an object indexed
  by the language code, \<^verbatim>\<open>translation[language]\<close>; a language whose string is
  \<^verbatim>\<open>undefined\<close> maps to \<open>None\<close>. Strings are the UTF-8 bytes of the source text.
\<close>

datatype Language = en | fr | ar

type_synonym Entry = "Language \<rightharpoonup> string"

text \<open>The object literal \<^verbatim>\<open>{ en: ..., fr: ..., ar: ... }\<close>.\<close>

definition entry :: "string \<Rightarrow> string \<Rightarrow> string \<Rightarrow> Entry" where
  "entry e f a = (\<lambda>language. Some (case language of en \<Rightarrow> e | fr \<Rightarrow> f | ar \<Rightarrow> a))"

text \<open>
  Reading \<^verbatim>\<open>translations[key]\<close> on a plain object: the object's own property if it has
  one, otherwise the property of that name on \<^verbatim>\<open>Object.prototype\<close>, otherwise
  \<^verbatim>\<open>undefined\<close>. \<open>Object_prototype\<close> lists the property names of
  \<^verbatim>\<open>Object.prototype\<close>; each of them holds a function (or, for \<^verbatim>\<open>__proto__\<close>, the
  prototype object itself), a truthy value without a property \<^verbatim>\<open>en\<close>, \<^verbatim>\<open>fr\<close> or
  \<^verbatim>\<open>ar\<close>.
\<close>

datatype 'a property = Undefined | Own 'a | Inherited

definition Object_prototype :: "string list" where
  "Object_prototype =
     [''constructor'', ''__defineGetter__'', ''__defineSetter__'', ''hasOwnProperty'',
      ''__lookupGetter__'', ''__lookupSetter__'', ''isPrototypeOf'',
      ''propertyIsEnumerable'', ''toString'', ''valueOf'', ''__proto__'',
      ''toLocaleString'']"

definition get_property :: "(string \<rightharpoonup> 'a) \<Rightarrow> string \<Rightarrow> 'a property" where
  "get_property obj key =
     (case obj key of
        Some v \<Rightarrow> Own v
      | None \<Rightarrow> if key \<in> set Object_prototype then Inherited else Undefined)"

text \<open>
  JavaScript's \<^verbatim>\<open>a || b\<close> on values that are strings or \<^verbatim>\<open>undefined\<close>: the left
  operand if it is truthy (a non-empty string), the right operand otherwise.
\<close>

definition truthy :: "string option \<Rightarrow> bool" where
  "truthy v = (case v of None \<Rightarrow> False | Some s \<Rightarrow> s \<noteq> [])"

definition or_js :: "string option \<Rightarrow> string option \<Rightarrow> string option" where
  "or_js a b = (if truthy a then a else b)"

definition or_key :: "string option \<Rightarrow> string \<Rightarrow> string" where
  "or_key a key = (case a of None \<Rightarrow> key | Some s \<Rightarrow> if s \<noteq> [] then s else key)"

subsection \<open>The translation function\<close>

text \<open>
  \<^verbatim>\<open>t(key)\<close> inside \<^verbatim>\<open>TranslationProvider\<close>, with the dictionary and the current
  language as parameters. The result is the returned string together with the messages
  given to \<^verbatim>\<open>console.warn\<close> during the call. For an inherited property both
  \<^verbatim>\<open>translation[language]\<close> and \<^verbatim>\<open>translation['en']\<close> are \<^verbatim>\<open>undefined\<close>.
\<close>

definition t :: "(string \<rightharpoonup> Entry) \<Rightarrow> Language \<Rightarrow> string \<Rightarrow> string \<times> string list" where
  "t translations language key =
     (case get_property translations key of
        Undefined \<Rightarrow> (key, [''Translation missing for key: '' @ key])
      | Own translation \<Rightarrow> (or_key (or_js (translation language) (translation en)) key, [])
      | Inherited \<Rightarrow> (or_key (or_js None None) key, []))"

subsection \<open>Provider and hook\<close>

text \<open>
  The context value carries the current language; its members \<^verbatim>\<open>t\<close> and
  \<^verbatim>\<open>setLanguage\<close> are the functions \<open>context_t\<close> and \<open>setLanguage\<close> below.
  \<^verbatim>\<open>createContext(undefined)\<close> makes \<^verbatim>\<open>undefined\<close> the value read outside every
  provider; React's \<^verbatim>\<open>useContext\<close> reads the value of the nearest enclosing provider.
\<close>

record TranslationContextType =
  language :: Language

datatype error = Error string

definition useContext :: "'a \<Rightarrow> 'a list \<Rightarrow> 'a" where
  "useContext default_value providers =
     (case providers of [] \<Rightarrow> default_value | v # _ \<Rightarrow> v)"

definition TranslationProvider :: TranslationContextType where
  "TranslationProvider = \<lparr>language = en\<rparr>"

definition setLanguage :: "Language \<Rightarrow> TranslationContextType \<Rightarrow> TranslationContextType" where
  "setLanguage lang c = c\<lparr>language := lang\<rparr>"

text \<open>
  \<open>useTranslation providers\<close>: the hook called under the given enclosing
  \<^verbatim>\<open>TranslationProvider\<close>s, nearest first. The \<^verbatim>\<open>throw\<close> is the \<open>Inl\<close> result.
\<close>

definition useTranslation :: "TranslationContextType list \<Rightarrow> error + TranslationContextType" where
  "useTranslation providers =
     (case useContext None (map Some providers) of
        None \<Rightarrow> Inl (Error ''useTranslation must be used within TranslationProvider'')
      | Some c \<Rightarrow> Inr c)"

subsection \<open>The dictionary\<close>

text \<open>The dictionary of the application, as the own properties of the object literal.\<close>

definition translations_table :: "string \<rightharpoonup> Entry" where
  "translations_table = map_of
    [(''hero.title'',
      entry (''Smart Queue Management'')
        (''Gestion intelligente des files'')
        ([CHR 0xD8, CHR 0xA5, CHR 0xD8, CHR 0xAF, CHR 0xD8, CHR 0xA7, CHR 0xD8, CHR 0xB1,
          CHR 0xD8, CHR 0xA9] @ '' '' @ [CHR 0xD9, CHR 0x82, CHR 0xD8, CHR 0xA7, CHR 0xD8,
          CHR 0xA6, CHR 0xD9, CHR 0x85, CHR 0xD8, CHR 0xA9] @ '' '' @ [CHR 0xD8, CHR 0xA7,
          CHR 0xD9, CHR 0x84, CHR 0xD8, CHR 0xA7, CHR 0xD9, CHR 0x86, CHR 0xD8, CHR 0xAA,
          CHR 0xD8, CHR 0xB8, CHR 0xD8, CHR 0xA7, CHR 0xD8, CHR 0xB1] @ '' '' @ [CHR 0xD8,
          CHR 0xA7, CHR 0xD9, CHR 0x84, CHR 0xD8, CHR 0xB0, CHR 0xD9, CHR 0x83, CHR 0xD9,
          CHR 0x8A, CHR 0xD8, CHR 0xA9])),
     (''hero.description'',
      entry (''Manage queues efficiently and improve customer experience with our smart queue management solutions.'')
        (''G'' @ [CHR 0xC3, CHR 0xA9] @ ''rez efficacement les files d'' @ [CHR 0x27]
          @ ''attente et am'' @ [CHR 0xC3, CHR 0xA9] @ ''liorez l'' @ [CHR 0x27] @ ''exp''
          @ [CHR 0xC3, CHR 0xA9] @ ''rience client gr'' @ [CHR 0xC3, CHR 0xA2] @ ''ce ''
          @ [CHR 0xC3, CHR 0xA0] @ '' nos solutions intelligentes de gestion des files d''
          @ [CHR 0x27] @ ''attente.'')
        ([CHR 0xD9, CHR 0x82, CHR 0xD9, CHR 0x85] @ '' '' @ [CHR 0xD8, CHR 0xA8, CHR 0xD8,
          CHR 0xA5, CHR 0xD8, CHR 0xAF, CHR 0xD8, CHR 0xA7, CHR 0xD8, CHR 0xB1, CHR 0xD8,
          CHR 0xA9] @ '' '' @ [CHR 0xD9, CHR 0x82, CHR 0xD9, CHR 0x88, CHR 0xD8, CHR 0xA7,
          CHR 0xD8, CHR 0xA6, CHR 0xD9, CHR 0x85] @ '' '' @ [CHR 0xD8, CHR 0xA7, CHR 0xD9,
          CHR 0x84, CHR 0xD8, CHR 0xA7, CHR 0xD9, CHR 0x86, CHR 0xD8, CHR 0xAA, CHR 0xD8,
          CHR 0xB8, CHR 0xD8, CHR 0xA7, CHR 0xD8, CHR 0xB1] @ '' '' @ [CHR 0xD8, CHR 0xA8,
          CHR 0xD9, CHR 0x83, CHR 0xD9, CHR 0x81, CHR 0xD8, CHR 0xA7, CHR 0xD8, CHR 0xA1,
          CHR 0xD8, CHR 0xA9] @ '' '' @ [CHR 0xD9, CHR 0x88, CHR 0xD8, CHR 0xAD, CHR 0xD8,
          CHR 0xB3, CHR 0xD9, CHR 0x91, CHR 0xD9, CHR 0x86] @ '' '' @ [CHR 0xD8, CHR 0xAA,
          CHR 0xD8, CHR 0xAC, CHR 0xD8, CHR 0xB1, CHR 0xD8, CHR 0xA8, CHR 0xD8, CHR 0xA9]
          @ '' '' @ [CHR 0xD8, CHR 0xA7, CHR 0xD9, CHR 0x84, CHR 0xD8, CHR 0xB9, CHR 0xD9,
          CHR 0x85, CHR 0xD9, CHR 0x84, CHR 0xD8, CHR 0xA7, CHR 0xD8, CHR 0xA1] @ '' ''
          @ [CHR 0xD9, CHR 0x85, CHR 0xD9, CHR 0x86] @ '' '' @ [CHR 0xD8, CHR 0xAE, CHR 0xD9,
          CHR 0x84, CHR 0xD8, CHR 0xA7, CHR 0xD9, CHR 0x84] @ '' '' @ [CHR 0xD8, CHR 0xAD,
          CHR 0xD9, CHR 0x84, CHR 0xD9, CHR 0x88, CHR 0xD9, CHR 0x84] @ '' '' @ [CHR 0xD8,
          CHR 0xA5, CHR 0xD8, CHR 0xAF, CHR 0xD8, CHR 0xA7, CHR 0xD8, CHR 0xB1, CHR 0xD8,
          CHR 0xA9] @ '' '' @ [CHR 0xD9, CHR 0x82, CHR 0xD8, CHR 0xA7, CHR 0xD8, CHR 0xA6,
          CHR 0xD9, CHR 0x85, CHR 0xD8, CHR 0xA9] @ '' '' @ [CHR 0xD8, CHR 0xA7, CHR 0xD9,
          CHR 0x84, CHR 0xD8, CHR 0xA7, CHR 0xD9, CHR 0x86, CHR 0xD8, CHR 0xAA, CHR 0xD8,
          CHR 0xB8, CHR 0xD8, CHR 0xA7, CHR 0xD8, CHR 0xB1] @ '' '' @ [CHR 0xD8, CHR 0xA7,
          CHR 0xD9, CHR 0x84, CHR 0xD8, CHR 0xB0, CHR 0xD9, CHR 0x83, CHR 0xD9, CHR 0x8A,
          CHR 0xD8, CHR 0xA9] @ '' '' @ [CHR 0xD8, CHR 0xA7, CHR 0xD9, CHR 0x84, CHR 0xD8,
          CHR 0xAA, CHR 0xD9, CHR 0x8A] @ '' '' @ [CHR 0xD9, CHR 0x86, CHR 0xD9, CHR 0x82,
          CHR 0xD8, CHR 0xAF, CHR 0xD9, CHR 0x85, CHR 0xD9, CHR 0x87, CHR 0xD8, CHR 0xA7]
          @ ''.'')),
     (''hero.getStarted'',
      entry (''Get Started'')
        (''Commencer'')
        ([CHR 0xD8, CHR 0xA7, CHR 0xD8, CHR 0xA8, CHR 0xD8, CHR 0xAF, CHR 0xD8, CHR 0xA3])),
     (''partnerships.title'',
      entry (''Strategic Partnerships'')
        (''Partenariats Strat'' @ [CHR 0xC3, CHR 0xA9] @ ''giques'')
        ([CHR 0xD8, CHR 0xB4, CHR 0xD8, CHR 0xB1, CHR 0xD8, CHR 0xA7, CHR 0xD9, CHR 0x83,
          CHR 0xD8, CHR 0xA7, CHR 0xD8, CHR 0xAA] @ '' '' @ [CHR 0xD8, CHR 0xA7, CHR 0xD8,
          CHR 0xB3, CHR 0xD8, CHR 0xAA, CHR 0xD8, CHR 0xB1, CHR 0xD8, CHR 0xA7, CHR 0xD8,
          CHR 0xAA, CHR 0xD9, CHR 0x8A, CHR 0xD8, CHR 0xAC, CHR 0xD9, CHR 0x8A, CHR 0xD8,
          CHR 0xA9])),
     (''partnerships.description'',
      entry (''We partner with leading companies to deliver comprehensive solutions.'')
        (''Nous collaborons avec des entreprises de premier plan pour fournir des solutions compl'' @ [CHR 0xC3, CHR 0xA8] @ ''tes.'')
        ([CHR 0xD9, CHR 0x86, CHR 0xD8, CHR 0xAA, CHR 0xD8, CHR 0xB4, CHR 0xD8, CHR 0xA7,
          CHR 0xD8, CHR 0xB1, CHR 0xD9, CHR 0x83] @ '' '' @ [CHR 0xD9, CHR 0x85, CHR 0xD8,
          CHR 0xB9] @ '' '' @ [CHR 0xD8, CHR 0xA7, CHR 0xD9, CHR 0x84, CHR 0xD8, CHR 0xB4,
          CHR 0xD8, CHR 0xB1, CHR 0xD9, CHR 0x83, CHR 0xD8, CHR 0xA7, CHR 0xD8, CHR 0xAA]
          @ '' '' @ [CHR 0xD8, CHR 0xA7, CHR 0xD9, CHR 0x84, CHR 0xD8, CHR 0xB1, CHR 0xD8,
          CHR 0xA7, CHR 0xD8, CHR 0xA6, CHR 0xD8, CHR 0xAF, CHR 0xD8, CHR 0xA9] @ '' ''
          @ [CHR 0xD9, CHR 0x84, CHR 0xD8, CHR 0xAA, CHR 0xD9, CHR 0x82, CHR 0xD8, CHR 0xAF,
          CHR 0xD9, CHR 0x8A, CHR 0xD9, CHR 0x85] @ '' '' @ [CHR 0xD8, CHR 0xAD, CHR 0xD9,
          CHR 0x84, CHR 0xD9, CHR 0x88, CHR 0xD9, CHR 0x84] @ '' '' @ [CHR 0xD8, CHR 0xB4,
          CHR 0xD8, CHR 0xA7, CHR 0xD9, CHR 0x85, CHR 0xD9, CHR 0x84, CHR 0xD8, CHR 0xA9]
          @ ''.'')),
     (''about.title'',
      entry (''About Us'')
        ([CHR 0xC3, CHR 0x80] @ '' Propos de Nous'')
        ([CHR 0xD9, CHR 0x85, CHR 0xD8, CHR 0xB9, CHR 0xD9, CHR 0x84, CHR 0xD9, CHR 0x88,
          CHR 0xD9, CHR 0x85, CHR 0xD8, CHR 0xA7, CHR 0xD8, CHR 0xAA] @ '' '' @ [CHR 0xD8,
          CHR 0xB9, CHR 0xD9, CHR 0x86, CHR 0xD8, CHR 0xA7])),
     (''about.description'',
      entry (''Learn more about our company, mission, and the team behind our innovative solutions.'')
        (''Apprenez-en davantage sur notre entreprise, notre mission et l'' @ [CHR 0x27,
          CHR 0xC3, CHR 0xA9] @ ''quipe derri'' @ [CHR 0xC3, CHR 0xA8]
          @ ''re nos solutions innovantes.'')
        ([CHR 0xD8, CHR 0xAA, CHR 0xD8, CHR 0xB9, CHR 0xD8, CHR 0xB1, CHR 0xD9, CHR 0x81]
          @ '' '' @ [CHR 0xD8, CHR 0xB9, CHR 0xD9, CHR 0x84, CHR 0xD9, CHR 0x89] @ '' ''
          @ [CHR 0xD8, CHR 0xA7, CHR 0xD9, CHR 0x84, CHR 0xD9, CHR 0x85, CHR 0xD8, CHR 0xB2,
          CHR 0xD9, CHR 0x8A, CHR 0xD8, CHR 0xAF] @ '' '' @ [CHR 0xD8, CHR 0xAD, CHR 0xD9,
          CHR 0x88, CHR 0xD9, CHR 0x84] @ '' '' @ [CHR 0xD8, CHR 0xB4, CHR 0xD8, CHR 0xB1,
          CHR 0xD9, CHR 0x83, CHR 0xD8, CHR 0xAA, CHR 0xD9, CHR 0x86, CHR 0xD8, CHR 0xA7]
          @ '' '' @ [CHR 0xD9, CHR 0x88, CHR 0xD8, CHR 0xB1, CHR 0xD8, CHR 0xB3, CHR 0xD8,
          CHR 0xA7, CHR 0xD9, CHR 0x84, CHR 0xD8, CHR 0xAA, CHR 0xD9, CHR 0x86, CHR 0xD8,
          CHR 0xA7] @ '' '' @ [CHR 0xD9, CHR 0x88, CHR 0xD8, CHR 0xA7, CHR 0xD9, CHR 0x84,
          CHR 0xD9, CHR 0x81, CHR 0xD8, CHR 0xB1, CHR 0xD9, CHR 0x8A, CHR 0xD9, CHR 0x82]
          @ '' '' @ [CHR 0xD8, CHR 0xA7, CHR 0xD9, CHR 0x84, CHR 0xD8, CHR 0xB0, CHR 0xD9,
          CHR 0x8A] @ '' '' @ [CHR 0xD9, CHR 0x8A, CHR 0xD9, CHR 0x82, CHR 0xD9, CHR 0x81]
          @ '' '' @ [CHR 0xD9, CHR 0x88, CHR 0xD8, CHR 0xB1, CHR 0xD8, CHR 0xA7, CHR 0xD8,
          CHR 0xA1] @ '' '' @ [CHR 0xD8, CHR 0xAD, CHR 0xD9, CHR 0x84, CHR 0xD9, CHR 0x88,
          CHR 0xD9, CHR 0x84, CHR 0xD9, CHR 0x86, CHR 0xD8, CHR 0xA7] @ '' '' @ [CHR 0xD8,
          CHR 0xA7, CHR 0xD9, CHR 0x84, CHR 0xD9, CHR 0x85, CHR 0xD8, CHR 0xA8, CHR 0xD8,
          CHR 0xAA, CHR 0xD9, CHR 0x83, CHR 0xD8, CHR 0xB1, CHR 0xD8, CHR 0xA9] @ ''.'')),
     (''privacy.title'',
      entry (''Privacy Policy'')
        (''Politique de Confidentialit'' @ [CHR 0xC3, CHR 0xA9])
        ([CHR 0xD8, CHR 0xB3, CHR 0xD9, CHR 0x8A, CHR 0xD8, CHR 0xA7, CHR 0xD8, CHR 0xB3,
          CHR 0xD8, CHR 0xA9] @ '' '' @ [CHR 0xD8, CHR 0xA7, CHR 0xD9, CHR 0x84, CHR 0xD8,
          CHR 0xAE, CHR 0xD8, CHR 0xB5, CHR 0xD9, CHR 0x88, CHR 0xD8, CHR 0xB5, CHR 0xD9,
          CHR 0x8A, CHR 0xD8, CHR 0xA9])),
     (''privacy.description'',
      entry (''Read our privacy policy to understand how we protect your information.'')
        (''Lisez notre politique de confidentialit'' @ [CHR 0xC3, CHR 0xA9]
          @ '' pour comprendre comment nous prot'' @ [CHR 0xC3, CHR 0xA9]
          @ ''geons vos informations.'')
        ([CHR 0xD8, CHR 0xA7, CHR 0xD9, CHR 0x82, CHR 0xD8, CHR 0xB1, CHR 0xD8, CHR 0xA3]
          @ '' '' @ [CHR 0xD8, CHR 0xB3, CHR 0xD9, CHR 0x8A, CHR 0xD8, CHR 0xA7, CHR 0xD8,
          CHR 0xB3, CHR 0xD8, CHR 0xA9] @ '' '' @ [CHR 0xD8, CHR 0xA7, CHR 0xD9, CHR 0x84,
          CHR 0xD8, CHR 0xAE, CHR 0xD8, CHR 0xB5, CHR 0xD9, CHR 0x88, CHR 0xD8, CHR 0xB5,
          CHR 0xD9, CHR 0x8A, CHR 0xD8, CHR 0xA9] @ '' '' @ [CHR 0xD8, CHR 0xA7, CHR 0xD9,
          CHR 0x84, CHR 0xD8, CHR 0xAE, CHR 0xD8, CHR 0xA7, CHR 0xD8, CHR 0xB5, CHR 0xD8,
          CHR 0xA9] @ '' '' @ [CHR 0xD8, CHR 0xA8, CHR 0xD9, CHR 0x86, CHR 0xD8, CHR 0xA7]
          @ '' '' @ [CHR 0xD9, CHR 0x84, CHR 0xD9, CHR 0x81, CHR 0xD9, CHR 0x87, CHR 0xD9,
          CHR 0x85] @ '' '' @ [CHR 0xD9, CHR 0x83, CHR 0xD9, CHR 0x8A, CHR 0xD9, CHR 0x81]
          @ '' '' @ [CHR 0xD9, CHR 0x86, CHR 0xD8, CHR 0xAD, CHR 0xD9, CHR 0x85, CHR 0xD9,
          CHR 0x8A] @ '' '' @ [CHR 0xD9, CHR 0x85, CHR 0xD8, CHR 0xB9, CHR 0xD9, CHR 0x84,
          CHR 0xD9, CHR 0x88, CHR 0xD9, CHR 0x85, CHR 0xD8, CHR 0xA7, CHR 0xD8, CHR 0xAA,
          CHR 0xD9, CHR 0x83] @ ''.'')),
     (''contact.title'',
      entry (''Contact Us'')
        (''Contactez-Nous'')
        ([CHR 0xD8, CHR 0xA7, CHR 0xD8, CHR 0xAA, CHR 0xD8, CHR 0xB5, CHR 0xD9, CHR 0x84]
          @ '' '' @ [CHR 0xD8, CHR 0xA8, CHR 0xD9, CHR 0x86, CHR 0xD8, CHR 0xA7])),
     (''contact.description'',
      entry (''Need assistance? Contact our support team for help with any questions or issues.'')
        (''Besoin d'' @ [CHR 0x27] @ ''aide ? Contactez notre '' @ [CHR 0xC3, CHR 0xA9]
          @ ''quipe de support pour toute question ou probl'' @ [CHR 0xC3, CHR 0xA8] @ ''me.'')
        ([CHR 0xD9, CHR 0x87, CHR 0xD9, CHR 0x84] @ '' '' @ [CHR 0xD8, CHR 0xAA, CHR 0xD8,
          CHR 0xAD, CHR 0xD8, CHR 0xAA, CHR 0xD8, CHR 0xA7, CHR 0xD8, CHR 0xAC] @ '' ''
          @ [CHR 0xD8, CHR 0xA5, CHR 0xD9, CHR 0x84, CHR 0xD9, CHR 0x89] @ '' '' @ [CHR 0xD9,
          CHR 0x85, CHR 0xD8, CHR 0xB3, CHR 0xD8, CHR 0xA7, CHR 0xD8, CHR 0xB9, CHR 0xD8,
          CHR 0xAF, CHR 0xD8, CHR 0xA9, CHR 0xD8, CHR 0x9F] @ '' '' @ [CHR 0xD8, CHR 0xA7,
          CHR 0xD8, CHR 0xAA, CHR 0xD8, CHR 0xB5, CHR 0xD9, CHR 0x84] @ '' '' @ [CHR 0xD8,
          CHR 0xA8, CHR 0xD9, CHR 0x81, CHR 0xD8, CHR 0xB1, CHR 0xD9, CHR 0x8A, CHR 0xD9,
          CHR 0x82] @ '' '' @ [CHR 0xD8, CHR 0xA7, CHR 0xD9, CHR 0x84, CHR 0xD8, CHR 0xAF,
          CHR 0xD8, CHR 0xB9, CHR 0xD9, CHR 0x85] @ '' '' @ [CHR 0xD9, CHR 0x84, CHR 0xD8,
          CHR 0xAF, CHR 0xD9, CHR 0x8A, CHR 0xD9, CHR 0x86, CHR 0xD8, CHR 0xA7] @ '' ''
          @ [CHR 0xD9, CHR 0x84, CHR 0xD9, CHR 0x84, CHR 0xD8, CHR 0xAD, CHR 0xD8, CHR 0xB5,
          CHR 0xD9, CHR 0x88, CHR 0xD9, CHR 0x84] @ '' '' @ [CHR 0xD8, CHR 0xB9, CHR 0xD9,
          CHR 0x84, CHR 0xD9, CHR 0x89] @ '' '' @ [CHR 0xD9, CHR 0x85, CHR 0xD8, CHR 0xB3,
          CHR 0xD8, CHR 0xA7, CHR 0xD8, CHR 0xB9, CHR 0xD8, CHR 0xAF, CHR 0xD8, CHR 0xA9]
          @ '' '' @ [CHR 0xD9, CHR 0x81, CHR 0xD9, CHR 0x8A] @ '' '' @ [CHR 0xD8, CHR 0xA3,
          CHR 0xD9, CHR 0x8A] @ '' '' @ [CHR 0xD8, CHR 0xA3, CHR 0xD8, CHR 0xB3, CHR 0xD8,
          CHR 0xA6, CHR 0xD9, CHR 0x84, CHR 0xD8, CHR 0xA9] @ '' '' @ [CHR 0xD8, CHR 0xA3,
          CHR 0xD9, CHR 0x88] @ '' '' @ [CHR 0xD9, CHR 0x85, CHR 0xD8, CHR 0xB4, CHR 0xD8,
          CHR 0xA7, CHR 0xD9, CHR 0x83, CHR 0xD9, CHR 0x84] @ ''.'')),
     (''features.title'',
      entry (''Key Features'')
        (''Fonctionnalit'' @ [CHR 0xC3, CHR 0xA9] @ ''s Cl'' @ [CHR 0xC3, CHR 0xA9] @ ''s'')
        ([CHR 0xD8, CHR 0xA7, CHR 0xD9, CHR 0x84, CHR 0xD9, CHR 0x85, CHR 0xD9, CHR 0x8A,
          CHR 0xD8, CHR 0xB2, CHR 0xD8, CHR 0xA7, CHR 0xD8, CHR 0xAA] @ '' '' @ [CHR 0xD8,
          CHR 0xA7, CHR 0xD9, CHR 0x84, CHR 0xD8, CHR 0xB1, CHR 0xD8, CHR 0xA6, CHR 0xD9,
          CHR 0x8A, CHR 0xD8, CHR 0xB3, CHR 0xD9, CHR 0x8A, CHR 0xD8, CHR 0xA9])),
     (''features.description'',
      entry (''Explore the powerful features that make our queue management system stand out.'')
        (''Explorez les fonctionnalit'' @ [CHR 0xC3, CHR 0xA9]
          @ ''s puissantes qui distinguent notre syst'' @ [CHR 0xC3, CHR 0xA8]
          @ ''me de gestion des files d'' @ [CHR 0x27] @ ''attente.'')
        ([CHR 0xD8, CHR 0xA7, CHR 0xD9, CHR 0x83, CHR 0xD8, CHR 0xAA, CHR 0xD8, CHR 0xB4,
          CHR 0xD9, CHR 0x81] @ '' '' @ [CHR 0xD8, CHR 0xA7, CHR 0xD9, CHR 0x84, CHR 0xD9,
          CHR 0x85, CHR 0xD9, CHR 0x8A, CHR 0xD8, CHR 0xB2, CHR 0xD8, CHR 0xA7, CHR 0xD8,
          CHR 0xAA] @ '' '' @ [CHR 0xD8, CHR 0xA7, CHR 0xD9, CHR 0x84, CHR 0xD9, CHR 0x82,
          CHR 0xD9, CHR 0x88, CHR 0xD9, CHR 0x8A, CHR 0xD8, CHR 0xA9] @ '' '' @ [CHR 0xD8,
          CHR 0xA7, CHR 0xD9, CHR 0x84, CHR 0xD8, CHR 0xAA, CHR 0xD9, CHR 0x8A] @ '' ''
          @ [CHR 0xD8, CHR 0xAA, CHR 0xD8, CHR 0xAC, CHR 0xD8, CHR 0xB9, CHR 0xD9, CHR 0x84]
          @ '' '' @ [CHR 0xD9, CHR 0x86, CHR 0xD8, CHR 0xB8, CHR 0xD8, CHR 0xA7, CHR 0xD9,
          CHR 0x85] @ '' '' @ [CHR 0xD8, CHR 0xA5, CHR 0xD8, CHR 0xAF, CHR 0xD8, CHR 0xA7,
          CHR 0xD8, CHR 0xB1, CHR 0xD8, CHR 0xA9] @ '' '' @ [CHR 0xD9, CHR 0x82, CHR 0xD8,
          CHR 0xA7, CHR 0xD8, CHR 0xA6, CHR 0xD9, CHR 0x85, CHR 0xD8, CHR 0xA9] @ '' ''
          @ [CHR 0xD8, CHR 0xA7, CHR 0xD9, CHR 0x84, CHR 0xD8, CHR 0xA7, CHR 0xD9, CHR 0x86,
          CHR 0xD8, CHR 0xAA, CHR 0xD8, CHR 0xB8, CHR 0xD8, CHR 0xA7, CHR 0xD8, CHR 0xB1]
          @ '' '' @ [CHR 0xD9, CHR 0x84, CHR 0xD8, CHR 0xAF, CHR 0xD9, CHR 0x8A, CHR 0xD9,
          CHR 0x86, CHR 0xD8, CHR 0xA7] @ '' '' @ [CHR 0xD9, CHR 0x85, CHR 0xD8, CHR 0xAA,
          CHR 0xD9, CHR 0x85, CHR 0xD9, CHR 0x8A, CHR 0xD8, CHR 0xB2, CHR 0xD9, CHR 0x8B,
          CHR 0xD8, CHR 0xA7] @ ''.'')),
     (''testimonials.title'',
      entry (''What Our Clients Say'')
        (''Ce Que Disent Nos Clients'')
        ([CHR 0xD9, CHR 0x85, CHR 0xD8, CHR 0xA7, CHR 0xD8, CHR 0xB0, CHR 0xD8, CHR 0xA7]
          @ '' '' @ [CHR 0xD9, CHR 0x8A, CHR 0xD9, CHR 0x82, CHR 0xD9, CHR 0x88, CHR 0xD9,
          CHR 0x84] @ '' '' @ [CHR 0xD8, CHR 0xB9, CHR 0xD9, CHR 0x85, CHR 0xD9, CHR 0x84,
          CHR 0xD8, CHR 0xA7, CHR 0xD8, CHR 0xA4, CHR 0xD9, CHR 0x86, CHR 0xD8, CHR 0xA7])),
     (''testimonials.description'',
      entry (''Read testimonials from our satisfied clients who have transformed their queue management.'')
        (''Lisez les t'' @ [CHR 0xC3, CHR 0xA9]
          @ ''moignages de nos clients satisfaits qui ont transform'' @ [CHR 0xC3, CHR 0xA9]
          @ '' leur gestion des files d'' @ [CHR 0x27] @ ''attente.'')
        ([CHR 0xD8, CHR 0xA7, CHR 0xD9, CHR 0x82, CHR 0xD8, CHR 0xB1, CHR 0xD8, CHR 0xA3]
          @ '' '' @ [CHR 0xD8, CHR 0xB4, CHR 0xD9, CHR 0x87, CHR 0xD8, CHR 0xA7, CHR 0xD8,
          CHR 0xAF, CHR 0xD8, CHR 0xA7, CHR 0xD8, CHR 0xAA] @ '' '' @ [CHR 0xD8, CHR 0xB9,
          CHR 0xD9, CHR 0x85, CHR 0xD9, CHR 0x84, CHR 0xD8, CHR 0xA7, CHR 0xD8, CHR 0xA6,
          CHR 0xD9, CHR 0x86, CHR 0xD8, CHR 0xA7] @ '' '' @ [CHR 0xD8, CHR 0xA7, CHR 0xD9,
          CHR 0x84, CHR 0xD8, CHR 0xB1, CHR 0xD8, CHR 0xA7, CHR 0xD8, CHR 0xB6, CHR 0xD9,
          CHR 0x8A, CHR 0xD9, CHR 0x86] @ '' '' @ [CHR 0xD8, CHR 0xA7, CHR 0xD9, CHR 0x84,
          CHR 0xD8, CHR 0xB0, CHR 0xD9, CHR 0x8A, CHR 0xD9, CHR 0x86] @ '' '' @ [CHR 0xD9,
          CHR 0x82, CHR 0xD8, CHR 0xA7, CHR 0xD9, CHR 0x85, CHR 0xD9, CHR 0x88, CHR 0xD8,
          CHR 0xA7] @ '' '' @ [CHR 0xD8, CHR 0xA8, CHR 0xD8, CHR 0xAA, CHR 0xD8, CHR 0xAD,
          CHR 0xD9, CHR 0x88, CHR 0xD9, CHR 0x8A, CHR 0xD9, CHR 0x84] @ '' '' @ [CHR 0xD8,
          CHR 0xA5, CHR 0xD8, CHR 0xAF, CHR 0xD8, CHR 0xA7, CHR 0xD8, CHR 0xB1, CHR 0xD8,
          CHR 0xA9] @ '' '' @ [CHR 0xD9, CHR 0x82, CHR 0xD8, CHR 0xA7, CHR 0xD8, CHR 0xA6,
          CHR 0xD9, CHR 0x85, CHR 0xD8, CHR 0xA9] @ '' '' @ [CHR 0xD8, CHR 0xA7, CHR 0xD9,
          CHR 0x84, CHR 0xD8, CHR 0xA7, CHR 0xD9, CHR 0x86, CHR 0xD8, CHR 0xAA, CHR 0xD8,
          CHR 0xB8, CHR 0xD8, CHR 0xA7, CHR 0xD8, CHR 0xB1] @ '' '' @ [CHR 0xD8, CHR 0xA7,
          CHR 0xD9, CHR 0x84, CHR 0xD8, CHR 0xAE, CHR 0xD8, CHR 0xA7, CHR 0xD8, CHR 0xB5,
          CHR 0xD8, CHR 0xA9] @ '' '' @ [CHR 0xD8, CHR 0xA8, CHR 0xD9, CHR 0x87, CHR 0xD9,
          CHR 0x85] @ ''.'')),
     (''integrations.title'',
      entry (''Seamless Integrations'')
        (''Int'' @ [CHR 0xC3, CHR 0xA9] @ ''grations Faciles'')
        ([CHR 0xD8, CHR 0xAA, CHR 0xD9, CHR 0x83, CHR 0xD8, CHR 0xA7, CHR 0xD9, CHR 0x85,
          CHR 0xD9, CHR 0x84, CHR 0xD8, CHR 0xA7, CHR 0xD8, CHR 0xAA] @ '' '' @ [CHR 0xD8,
          CHR 0xB3, CHR 0xD9, CHR 0x84, CHR 0xD8, CHR 0xB3, CHR 0xD8, CHR 0xA9])),
     (''integrations.description'',
      entry (''Integrate our system with your existing tools for a streamlined workflow.'')
        (''Int'' @ [CHR 0xC3, CHR 0xA9] @ ''grez notre syst'' @ [CHR 0xC3, CHR 0xA8]
          @ ''me '' @ [CHR 0xC3, CHR 0xA0]
          @ '' vos outils existants pour un flux de travail simplifi'' @ [CHR 0xC3, CHR 0xA9]
          @ ''.'')
        ([CHR 0xD8, CHR 0xA7, CHR 0xD8, CHR 0xAF, CHR 0xD9, CHR 0x85, CHR 0xD8, CHR 0xAC]
          @ '' '' @ [CHR 0xD9, CHR 0x86, CHR 0xD8, CHR 0xB8, CHR 0xD8, CHR 0xA7, CHR 0xD9,
          CHR 0x85, CHR 0xD9, CHR 0x86, CHR 0xD8, CHR 0xA7] @ '' '' @ [CHR 0xD9, CHR 0x85,
          CHR 0xD8, CHR 0xB9] @ '' '' @ [CHR 0xD8, CHR 0xA3, CHR 0xD8, CHR 0xAF, CHR 0xD9,
          CHR 0x88, CHR 0xD8, CHR 0xA7, CHR 0xD8, CHR 0xAA, CHR 0xD9, CHR 0x83] @ '' ''
          @ [CHR 0xD8, CHR 0xA7, CHR 0xD9, CHR 0x84, CHR 0xD8, CHR 0xAD, CHR 0xD8, CHR 0xA7,
          CHR 0xD9, CHR 0x84, CHR 0xD9, CHR 0x8A, CHR 0xD8, CHR 0xA9] @ '' '' @ [CHR 0xD9,
          CHR 0x84, CHR 0xD9, CHR 0x84, CHR 0xD8, CHR 0xAD, CHR 0xD8, CHR 0xB5, CHR 0xD9,
          CHR 0x88, CHR 0xD9, CHR 0x84] @ '' '' @ [CHR 0xD8, CHR 0xB9, CHR 0xD9, CHR 0x84,
          CHR 0xD9, CHR 0x89] @ '' '' @ [CHR 0xD8, CHR 0xB3, CHR 0xD9, CHR 0x8A, CHR 0xD8,
          CHR 0xB1] @ '' '' @ [CHR 0xD8, CHR 0xB9, CHR 0xD9, CHR 0x85, CHR 0xD9, CHR 0x84]
          @ '' '' @ [CHR 0xD9, CHR 0x85, CHR 0xD8, CHR 0xA8, CHR 0xD8, CHR 0xB3, CHR 0xD8,
          CHR 0xB7] @ ''.'')),
     (''cta.title'',
      entry (''Ready to Transform Your Queues?'')
        (''Pr'' @ [CHR 0xC3, CHR 0xAA] @ ''t '' @ [CHR 0xC3, CHR 0xA0]
          @ '' Transformer Vos Files d'' @ [CHR 0x27] @ ''Attente ?'')
        ([CHR 0xD9, CHR 0x87, CHR 0xD9, CHR 0x84] @ '' '' @ [CHR 0xD8, CHR 0xA3, CHR 0xD9,
          CHR 0x86, CHR 0xD8, CHR 0xAA] @ '' '' @ [CHR 0xD9, CHR 0x85, CHR 0xD8, CHR 0xB3,
          CHR 0xD8, CHR 0xAA, CHR 0xD8, CHR 0xB9, CHR 0xD8, CHR 0xAF] @ '' '' @ [CHR 0xD9,
          CHR 0x84, CHR 0xD8, CHR 0xAA, CHR 0xD8, CHR 0xAD, CHR 0xD9, CHR 0x88, CHR 0xD9,
          CHR 0x8A, CHR 0xD9, CHR 0x84] @ '' '' @ [CHR 0xD9, CHR 0x82, CHR 0xD9, CHR 0x88,
          CHR 0xD8, CHR 0xA7, CHR 0xD8, CHR 0xA6, CHR 0xD9, CHR 0x85] @ '' '' @ [CHR 0xD8,
          CHR 0xA7, CHR 0xD9, CHR 0x84, CHR 0xD8, CHR 0xA7, CHR 0xD9, CHR 0x86, CHR 0xD8,
          CHR 0xAA, CHR 0xD8, CHR 0xB8, CHR 0xD8, CHR 0xA7, CHR 0xD8, CHR 0xB1] @ '' ''
          @ [CHR 0xD8, CHR 0xA7, CHR 0xD9, CHR 0x84, CHR 0xD8, CHR 0xAE, CHR 0xD8, CHR 0xA7,
          CHR 0xD8, CHR 0xB5, CHR 0xD8, CHR 0xA9] @ '' '' @ [CHR 0xD8, CHR 0xA8, CHR 0xD9,
          CHR 0x83, CHR 0xD8, CHR 0x9F])),
     (''cta.description'',
      entry (''Get started today and see the difference in your customer satisfaction.'')
        (''Commencez d'' @ [CHR 0xC3, CHR 0xA8] @ ''s aujourd'' @ [CHR 0x27]
          @ ''hui et constatez la diff'' @ [CHR 0xC3, CHR 0xA9]
          @ ''rence dans la satisfaction de vos clients.'')
        ([CHR 0xD8, CHR 0xA7, CHR 0xD8, CHR 0xA8, CHR 0xD8, CHR 0xAF, CHR 0xD8, CHR 0xA3]
          @ '' '' @ [CHR 0xD8, CHR 0xA7, CHR 0xD9, CHR 0x84, CHR 0xD9, CHR 0x8A, CHR 0xD9,
          CHR 0x88, CHR 0xD9, CHR 0x85] @ '' '' @ [CHR 0xD9, CHR 0x88, CHR 0xD8, CHR 0xB4,
          CHR 0xD8, CHR 0xA7, CHR 0xD9, CHR 0x87, CHR 0xD8, CHR 0xAF] @ '' '' @ [CHR 0xD8,
          CHR 0xA7, CHR 0xD9, CHR 0x84, CHR 0xD9, CHR 0x81, CHR 0xD8, CHR 0xB1, CHR 0xD9,
          CHR 0x82] @ '' '' @ [CHR 0xD9, CHR 0x81, CHR 0xD9, CHR 0x8A] @ '' '' @ [CHR 0xD8,
          CHR 0xB1, CHR 0xD8, CHR 0xB6, CHR 0xD8, CHR 0xA7] @ '' '' @ [CHR 0xD8, CHR 0xB9,
          CHR 0xD9, CHR 0x85, CHR 0xD9, CHR 0x84, CHR 0xD8, CHR 0xA7, CHR 0xD8, CHR 0xA6,
          CHR 0xD9, CHR 0x83] @ ''.'')),
     (''cta.button'',
      entry (''Request a Demo'')
        (''Demander une D'' @ [CHR 0xC3, CHR 0xA9] @ ''mo'')
        ([CHR 0xD8, CHR 0xA7, CHR 0xD8, CHR 0xB7, CHR 0xD9, CHR 0x84, CHR 0xD8, CHR 0xA8]
          @ '' '' @ [CHR 0xD8, CHR 0xB9, CHR 0xD8, CHR 0xB1, CHR 0xD8, CHR 0xB6, CHR 0xD9,
          CHR 0x8B, CHR 0xD8, CHR 0xA7] @ '' '' @ [CHR 0xD8, CHR 0xAA, CHR 0xD8, CHR 0xAC,
          CHR 0xD8, CHR 0xB1, CHR 0xD9, CHR 0x8A, CHR 0xD8, CHR 0xA8, CHR 0xD9, CHR 0x8A,
          CHR 0xD9, CHR 0x8B, CHR 0xD8, CHR 0xA7])),
     (''footer.copyright'',
      entry ([CHR 0xC2, CHR 0xA9] @ '' 2024 Smart Queue. All rights reserved.'')
        ([CHR 0xC2, CHR 0xA9] @ '' 2024 Smart Queue. Tous droits r'' @ [CHR 0xC3, CHR 0xA9]
          @ ''serv'' @ [CHR 0xC3, CHR 0xA9] @ ''s.'')
        ([CHR 0xC2, CHR 0xA9] @ '' 2024 Smart Queue. '' @ [CHR 0xD8, CHR 0xAC, CHR 0xD9,
          CHR 0x85, CHR 0xD9, CHR 0x8A, CHR 0xD8, CHR 0xB9] @ '' '' @ [CHR 0xD8, CHR 0xA7,
          CHR 0xD9, CHR 0x84, CHR 0xD8, CHR 0xAD, CHR 0xD9, CHR 0x82, CHR 0xD9, CHR 0x88,
          CHR 0xD9, CHR 0x82] @ '' '' @ [CHR 0xD9, CHR 0x85, CHR 0xD8, CHR 0xAD, CHR 0xD9,
          CHR 0x81, CHR 0xD9, CHR 0x88, CHR 0xD8, CHR 0xB8, CHR 0xD8, CHR 0xA9] @ ''.'')),
     (''footer.terms'',
      entry (''Terms of Service'')
        (''Conditions d'' @ [CHR 0x27] @ ''Utilisation'')
        ([CHR 0xD8, CHR 0xB4, CHR 0xD8, CHR 0xB1, CHR 0xD9, CHR 0x88, CHR 0xD8, CHR 0xB7]
          @ '' '' @ [CHR 0xD8, CHR 0xA7, CHR 0xD9, CHR 0x84, CHR 0xD8, CHR 0xAE, CHR 0xD8,
          CHR 0xAF, CHR 0xD9, CHR 0x85, CHR 0xD8, CHR 0xA9])),
     (''footer.privacy'',
      entry (''Privacy Policy'')
        (''Politique de Confidentialit'' @ [CHR 0xC3, CHR 0xA9])
        ([CHR 0xD8, CHR 0xB3, CHR 0xD9, CHR 0x8A, CHR 0xD8, CHR 0xA7, CHR 0xD8, CHR 0xB3,
          CHR 0xD8, CHR 0xA9] @ '' '' @ [CHR 0xD8, CHR 0xA7, CHR 0xD9, CHR 0x84, CHR 0xD8,
          CHR 0xAE, CHR 0xD8, CHR 0xB5, CHR 0xD9, CHR 0x88, CHR 0xD8, CHR 0xB5, CHR 0xD9,
          CHR 0x8A, CHR 0xD8, CHR 0xA9])),
     (''aboutPage.title'',
      entry (''Our Mission'')
        (''Notre Mission'')
        ([CHR 0xD9, CHR 0x85, CHR 0xD9, CHR 0x87, CHR 0xD9, CHR 0x85, CHR 0xD8, CHR 0xAA,
          CHR 0xD9, CHR 0x86, CHR 0xD8, CHR 0xA7])),
     (''aboutPage.content'',
      entry (''To revolutionize queue management with innovative technology.'')
        (''R'' @ [CHR 0xC3, CHR 0xA9] @ ''volutionner la gestion des files d'' @ [CHR 0x27]
          @ ''attente gr'' @ [CHR 0xC3, CHR 0xA2] @ ''ce '' @ [CHR 0xC3, CHR 0xA0]
          @ '' une technologie innovante.'')
        ([CHR 0xD8, CHR 0xA5, CHR 0xD8, CHR 0xAD, CHR 0xD8, CHR 0xAF, CHR 0xD8, CHR 0xA7,
          CHR 0xD8, CHR 0xAB] @ '' '' @ [CHR 0xD8, CHR 0xAB, CHR 0xD9, CHR 0x88, CHR 0xD8,
          CHR 0xB1, CHR 0xD8, CHR 0xA9] @ '' '' @ [CHR 0xD9, CHR 0x81, CHR 0xD9, CHR 0x8A]
          @ '' '' @ [CHR 0xD8, CHR 0xA5, CHR 0xD8, CHR 0xAF, CHR 0xD8, CHR 0xA7, CHR 0xD8,
          CHR 0xB1, CHR 0xD8, CHR 0xA9] @ '' '' @ [CHR 0xD9, CHR 0x82, CHR 0xD8, CHR 0xA7,
          CHR 0xD8, CHR 0xA6, CHR 0xD9, CHR 0x85, CHR 0xD8, CHR 0xA9] @ '' '' @ [CHR 0xD8,
          CHR 0xA7, CHR 0xD9, CHR 0x84, CHR 0xD8, CHR 0xA7, CHR 0xD9, CHR 0x86, CHR 0xD8,
          CHR 0xAA, CHR 0xD8, CHR 0xB8, CHR 0xD8, CHR 0xA7, CHR 0xD8, CHR 0xB1] @ '' ''
          @ [CHR 0xD9, CHR 0x85, CHR 0xD9, CHR 0x86] @ '' '' @ [CHR 0xD8, CHR 0xAE, CHR 0xD9,
          CHR 0x84, CHR 0xD8, CHR 0xA7, CHR 0xD9, CHR 0x84] @ '' '' @ [CHR 0xD8, CHR 0xA7,
          CHR 0xD9, CHR 0x84, CHR 0xD8, CHR 0xAA, CHR 0xD9, CHR 0x83, CHR 0xD9, CHR 0x86,
          CHR 0xD9, CHR 0x88, CHR 0xD9, CHR 0x84, CHR 0xD9, CHR 0x88, CHR 0xD8, CHR 0xAC,
          CHR 0xD9, CHR 0x8A, CHR 0xD8, CHR 0xA7] @ '' '' @ [CHR 0xD8, CHR 0xA7, CHR 0xD9,
          CHR 0x84, CHR 0xD9, CHR 0x85, CHR 0xD8, CHR 0xA8, CHR 0xD8, CHR 0xAA, CHR 0xD9,
          CHR 0x83, CHR 0xD8, CHR 0xB1, CHR 0xD8, CHR 0xA9] @ ''.'')),
     (''privacyPage.title'',
      entry (''Data Protection'')
        (''Protection des Donn'' @ [CHR 0xC3, CHR 0xA9] @ ''es'')
        ([CHR 0xD8, CHR 0xAD, CHR 0xD9, CHR 0x85, CHR 0xD8, CHR 0xA7, CHR 0xD9, CHR 0x8A,
          CHR 0xD8, CHR 0xA9] @ '' '' @ [CHR 0xD8, CHR 0xA7, CHR 0xD9, CHR 0x84, CHR 0xD8,
          CHR 0xA8, CHR 0xD9, CHR 0x8A, CHR 0xD8, CHR 0xA7, CHR 0xD9, CHR 0x86, CHR 0xD8,
          CHR 0xA7, CHR 0xD8, CHR 0xAA])),
     (''privacyPage.content'',
      entry (''We are committed to protecting your data and privacy.'')
        (''Nous nous engageons '' @ [CHR 0xC3, CHR 0xA0] @ '' prot'' @ [CHR 0xC3, CHR 0xA9]
          @ ''ger vos donn'' @ [CHR 0xC3, CHR 0xA9] @ ''es et votre vie priv'' @ [CHR 0xC3,
          CHR 0xA9] @ ''e.'')
        ([CHR 0xD9, CHR 0x86, CHR 0xD8, CHR 0xAD, CHR 0xD9, CHR 0x86] @ '' '' @ [CHR 0xD9,
          CHR 0x85, CHR 0xD9, CHR 0x84, CHR 0xD8, CHR 0xAA, CHR 0xD8, CHR 0xB2, CHR 0xD9,
          CHR 0x85, CHR 0xD9, CHR 0x88, CHR 0xD9, CHR 0x86] @ '' '' @ [CHR 0xD8, CHR 0xA8,
          CHR 0xD8, CHR 0xAD, CHR 0xD9, CHR 0x85, CHR 0xD8, CHR 0xA7, CHR 0xD9, CHR 0x8A,
          CHR 0xD8, CHR 0xA9] @ '' '' @ [CHR 0xD8, CHR 0xA8, CHR 0xD9, CHR 0x8A, CHR 0xD8,
          CHR 0xA7, CHR 0xD9, CHR 0x86, CHR 0xD8, CHR 0xA7, CHR 0xD8, CHR 0xAA, CHR 0xD9,
          CHR 0x83] @ '' '' @ [CHR 0xD9, CHR 0x88, CHR 0xD8, CHR 0xAE, CHR 0xD8, CHR 0xB5,
          CHR 0xD9, CHR 0x88, CHR 0xD8, CHR 0xB5, CHR 0xD9, CHR 0x8A, CHR 0xD8, CHR 0xAA,
          CHR 0xD9, CHR 0x83] @ ''.'')),
     (''contactPage.title'',
      entry (''Get in Touch'')
        (''Entrer en Contact'')
        ([CHR 0xD8, CHR 0xAA, CHR 0xD9, CHR 0x88, CHR 0xD8, CHR 0xA7, CHR 0xD8, CHR 0xB5,
          CHR 0xD9, CHR 0x84] @ '' '' @ [CHR 0xD9, CHR 0x85, CHR 0xD8, CHR 0xB9, CHR 0xD9,
          CHR 0x86, CHR 0xD8, CHR 0xA7])),
     (''contactPage.content'',
      entry (''Contact us for support, questions, or partnership opportunities.'')
        (''Contactez-nous pour obtenir de l'' @ [CHR 0x27]
          @ ''aide, poser des questions ou discuter des opportunit'' @ [CHR 0xC3, CHR 0xA9]
          @ ''s de partenariat.'')
        ([CHR 0xD8, CHR 0xA7, CHR 0xD8, CHR 0xAA, CHR 0xD8, CHR 0xB5, CHR 0xD9, CHR 0x84]
          @ '' '' @ [CHR 0xD8, CHR 0xA8, CHR 0xD9, CHR 0x86, CHR 0xD8, CHR 0xA7] @ '' ''
          @ [CHR 0xD9, CHR 0x84, CHR 0xD9, CHR 0x84, CHR 0xD8, CHR 0xAD, CHR 0xD8, CHR 0xB5,
          CHR 0xD9, CHR 0x88, CHR 0xD9, CHR 0x84] @ '' '' @ [CHR 0xD8, CHR 0xB9, CHR 0xD9,
          CHR 0x84, CHR 0xD9, CHR 0x89] @ '' '' @ [CHR 0xD8, CHR 0xA7, CHR 0xD9, CHR 0x84,
          CHR 0xD8, CHR 0xAF, CHR 0xD8, CHR 0xB9, CHR 0xD9, CHR 0x85] @ '' '' @ [CHR 0xD8,
          CHR 0xA3, CHR 0xD9, CHR 0x88] @ '' '' @ [CHR 0xD9, CHR 0x84, CHR 0xD8, CHR 0xB7,
          CHR 0xD8, CHR 0xB1, CHR 0xD8, CHR 0xAD] @ '' '' @ [CHR 0xD8, CHR 0xA7, CHR 0xD9,
          CHR 0x84, CHR 0xD8, CHR 0xA3, CHR 0xD8, CHR 0xB3, CHR 0xD8, CHR 0xA6, CHR 0xD9,
          CHR 0x84, CHR 0xD8, CHR 0xA9] @ '' '' @ [CHR 0xD8, CHR 0xA3, CHR 0xD9, CHR 0x88]
          @ '' '' @ [CHR 0xD9, CHR 0x84, CHR 0xD9, CHR 0x85, CHR 0xD9, CHR 0x86, CHR 0xD8,
          CHR 0xA7, CHR 0xD9, CHR 0x82, CHR 0xD8, CHR 0xB4, CHR 0xD8, CHR 0xA9] @ '' ''
          @ [CHR 0xD9, CHR 0x81, CHR 0xD8, CHR 0xB1, CHR 0xD8, CHR 0xB5] @ '' '' @ [CHR 0xD8,
          CHR 0xA7, CHR 0xD9, CHR 0x84, CHR 0xD8, CHR 0xB4, CHR 0xD8, CHR 0xB1, CHR 0xD8,
          CHR 0xA7, CHR 0xD9, CHR 0x83, CHR 0xD8, CHR 0xA9] @ ''.'')),
     (''nav.partnerships'',
      entry (''Partnerships'')
        (''Partenariats'')
        ([CHR 0xD8, CHR 0xA7, CHR 0xD9, CHR 0x84, CHR 0xD8, CHR 0xB4, CHR 0xD8, CHR 0xB1,
          CHR 0xD8, CHR 0xA7, CHR 0xD9, CHR 0x83, CHR 0xD8, CHR 0xA7, CHR 0xD8, CHR 0xAA])),
     (''nav.aboutUs'',
      entry (''About Us'')
        ([CHR 0xC3, CHR 0x80] @ '' propos'')
        ([CHR 0xD9, CHR 0x85, CHR 0xD9, CHR 0x86] @ '' '' @ [CHR 0xD9, CHR 0x86, CHR 0xD8,
          CHR 0xAD, CHR 0xD9, CHR 0x86])),
     (''nav.privacy'',
      entry (''Privacy & Policy'')
        (''Confidentialit'' @ [CHR 0xC3, CHR 0xA9])
        ([CHR 0xD8, CHR 0xA7, CHR 0xD9, CHR 0x84, CHR 0xD8, CHR 0xAE, CHR 0xD8, CHR 0xB5,
          CHR 0xD9, CHR 0x88, CHR 0xD8, CHR 0xB5, CHR 0xD9, CHR 0x8A, CHR 0xD8, CHR 0xA9])),
     (''nav.contact'',
      entry (''Contact Us'')
        (''Contact'')
        ([CHR 0xD8, CHR 0xA7, CHR 0xD8, CHR 0xAA, CHR 0xD8, CHR 0xB5, CHR 0xD9, CHR 0x84]
          @ '' '' @ [CHR 0xD8, CHR 0xA8, CHR 0xD9, CHR 0x86, CHR 0xD8, CHR 0xA7])),
     (''nav.clientPortal'',
      entry (''Client Portal'')
        (''Espace Client'')
        ([CHR 0xD8, CHR 0xA8, CHR 0xD9, CHR 0x88, CHR 0xD8, CHR 0xA7, CHR 0xD8, CHR 0xA8,
          CHR 0xD8, CHR 0xA9] @ '' '' @ [CHR 0xD8, CHR 0xA7, CHR 0xD9, CHR 0x84, CHR 0xD8,
          CHR 0xB9, CHR 0xD9, CHR 0x85, CHR 0xD9, CHR 0x8A, CHR 0xD9, CHR 0x84])),
     (''nav.signin'',
      entry (''Professional Access'')
        (''Acc'' @ [CHR 0xC3, CHR 0xA8] @ ''s Professionnel'')
        ([CHR 0xD8, CHR 0xAF, CHR 0xD8, CHR 0xAE, CHR 0xD9, CHR 0x88, CHR 0xD9, CHR 0x84]
          @ '' '' @ [CHR 0xD8, CHR 0xA7, CHR 0xD9, CHR 0x84, CHR 0xD9, CHR 0x85, CHR 0xD8,
          CHR 0xAD, CHR 0xD8, CHR 0xAA, CHR 0xD8, CHR 0xB1, CHR 0xD9, CHR 0x81, CHR 0xD9,
          CHR 0x8A, CHR 0xD9, CHR 0x86])),
     (''aboutUS.title'',
      entry (''Our Story'')
        (''Notre Histoire'')
        ([CHR 0xD9, CHR 0x82, CHR 0xD8, CHR 0xB5, CHR 0xD8, CHR 0xAA, CHR 0xD9, CHR 0x86,
          CHR 0xD8, CHR 0xA7])),
     (''aboutUS.content'',
      entry (''Founded in 2010, we set out to solve the challenges of queue management...'')
        (''Fond'' @ [CHR 0xC3, CHR 0xA9] @ ''e en 2010, nous avons entrepris de r''
          @ [CHR 0xC3, CHR 0xA9] @ ''soudre les d'' @ [CHR 0xC3, CHR 0xA9]
          @ ''fis de la gestion des files d'' @ [CHR 0x27] @ ''attente...'')
        ([CHR 0xD8, CHR 0xAA, CHR 0xD8, CHR 0xA3, CHR 0xD8, CHR 0xB3, CHR 0xD8, CHR 0xB3,
          CHR 0xD8, CHR 0xAA] @ '' '' @ [CHR 0xD9, CHR 0x81, CHR 0xD9, CHR 0x8A] @ '' ''
          @ [CHR 0xD8, CHR 0xB9, CHR 0xD8, CHR 0xA7, CHR 0xD9, CHR 0x85] @ '' 2010''
          @ [CHR 0xD8, CHR 0x8C] @ '' '' @ [CHR 0xD8, CHR 0xA7, CHR 0xD9, CHR 0x86, CHR 0xD8,
          CHR 0xB7, CHR 0xD9, CHR 0x84, CHR 0xD9, CHR 0x82, CHR 0xD9, CHR 0x86, CHR 0xD8,
          CHR 0xA7] @ '' '' @ [CHR 0xD9, CHR 0x84, CHR 0xD8, CHR 0xAD, CHR 0xD9, CHR 0x84]
          @ '' '' @ [CHR 0xD8, CHR 0xAA, CHR 0xD8, CHR 0xAD, CHR 0xD8, CHR 0xAF, CHR 0xD9,
          CHR 0x8A, CHR 0xD8, CHR 0xA7, CHR 0xD8, CHR 0xAA] @ '' '' @ [CHR 0xD8, CHR 0xA5,
          CHR 0xD8, CHR 0xAF, CHR 0xD8, CHR 0xA7, CHR 0xD8, CHR 0xB1, CHR 0xD8, CHR 0xA9]
          @ '' '' @ [CHR 0xD9, CHR 0x82, CHR 0xD8, CHR 0xA7, CHR 0xD8, CHR 0xA6, CHR 0xD9,
          CHR 0x85, CHR 0xD8, CHR 0xA9] @ '' '' @ [CHR 0xD8, CHR 0xA7, CHR 0xD9, CHR 0x84,
          CHR 0xD8, CHR 0xA7, CHR 0xD9, CHR 0x86, CHR 0xD8, CHR 0xAA, CHR 0xD8, CHR 0xB8,
          CHR 0xD8, CHR 0xA7, CHR 0xD8, CHR 0xB1] @ ''...'')),
     (''contactUS.title'',
      entry (''Reach Out'')
        (''Contactez-nous'')
        ([CHR 0xD8, CHR 0xAA, CHR 0xD9, CHR 0x88, CHR 0xD8, CHR 0xA7, CHR 0xD8, CHR 0xB5,
          CHR 0xD9, CHR 0x84] @ '' '' @ [CHR 0xD9, CHR 0x85, CHR 0xD8, CHR 0xB9, CHR 0xD9,
          CHR 0x86, CHR 0xD8, CHR 0xA7])),
     (''contactUS.address'',
      entry (''123 Main Street, Anytown'')
        (''123 Rue Principale, Ville'')
        (''123 '' @ [CHR 0xD8, CHR 0xB4, CHR 0xD8, CHR 0xA7, CHR 0xD8, CHR 0xB1, CHR 0xD8,
          CHR 0xB9] @ '' '' @ [CHR 0xD8, CHR 0xB1, CHR 0xD8, CHR 0xA6, CHR 0xD9, CHR 0x8A,
          CHR 0xD8, CHR 0xB3, CHR 0xD9, CHR 0x8A, CHR 0xD8, CHR 0x8C] @ '' '' @ [CHR 0xD8,
          CHR 0xA3, CHR 0xD9, CHR 0x8A] @ '' '' @ [CHR 0xD9, CHR 0x85, CHR 0xD8, CHR 0xAF,
          CHR 0xD9, CHR 0x8A, CHR 0xD9, CHR 0x86, CHR 0xD8, CHR 0xA9])),
     (''privacyPOlicy.title'',
      entry (''Our Commitment'')
        (''Notre Engagement'')
        ([CHR 0xD8, CHR 0xA7, CHR 0xD9, CHR 0x84, CHR 0xD8, CHR 0xAA, CHR 0xD8, CHR 0xB2,
          CHR 0xD8, CHR 0xA7, CHR 0xD9, CHR 0x85, CHR 0xD9, CHR 0x86, CHR 0xD8, CHR 0xA7])),
     (''privacyPOlicy.content'',
      entry (''We are dedicated to protecting your personal information...'')
        (''Nous nous engageons '' @ [CHR 0xC3, CHR 0xA0] @ '' prot'' @ [CHR 0xC3, CHR 0xA9]
          @ ''ger vos informations personnelles...'')
        ([CHR 0xD9, CHR 0x86, CHR 0xD8, CHR 0xAD, CHR 0xD9, CHR 0x86] @ '' '' @ [CHR 0xD9,
          CHR 0x85, CHR 0xD9, CHR 0x84, CHR 0xD8, CHR 0xAA, CHR 0xD8, CHR 0xB2, CHR 0xD9,
          CHR 0x85, CHR 0xD9, CHR 0x88, CHR 0xD9, CHR 0x86] @ '' '' @ [CHR 0xD8, CHR 0xA8,
          CHR 0xD8, CHR 0xAD, CHR 0xD9, CHR 0x85, CHR 0xD8, CHR 0xA7, CHR 0xD9, CHR 0x8A,
          CHR 0xD8, CHR 0xA9] @ '' '' @ [CHR 0xD9, CHR 0x85, CHR 0xD8, CHR 0xB9, CHR 0xD9,
          CHR 0x84, CHR 0xD9, CHR 0x88, CHR 0xD9, CHR 0x85, CHR 0xD8, CHR 0xA7, CHR 0xD8,
          CHR 0xAA, CHR 0xD9, CHR 0x83] @ '' '' @ [CHR 0xD8, CHR 0xA7, CHR 0xD9, CHR 0x84,
          CHR 0xD8, CHR 0xB4, CHR 0xD8, CHR 0xAE, CHR 0xD8, CHR 0xB5, CHR 0xD9, CHR 0x8A,
          CHR 0xD8, CHR 0xA9] @ ''...'')),
     (''translationCOntext.title'',
      entry (''Translation Context'')
        (''Contexte de Traduction'')
        ([CHR 0xD8, CHR 0xB3, CHR 0xD9, CHR 0x8A, CHR 0xD8, CHR 0xA7, CHR 0xD9, CHR 0x82]
          @ '' '' @ [CHR 0xD8, CHR 0xA7, CHR 0xD9, CHR 0x84, CHR 0xD8, CHR 0xAA, CHR 0xD8,
          CHR 0xB1, CHR 0xD8, CHR 0xAC, CHR 0xD9, CHR 0x85, CHR 0xD8, CHR 0xA9])),
     (''translationCOntext.description'',
      entry (''Providing multi-language support for the application.'')
        (''Fournir un support multilingue pour l'' @ [CHR 0x27] @ ''application.'')
        ([CHR 0xD8, CHR 0xAA, CHR 0xD9, CHR 0x88, CHR 0xD9, CHR 0x81, CHR 0xD9, CHR 0x8A,
          CHR 0xD8, CHR 0xB1] @ '' '' @ [CHR 0xD8, CHR 0xAF, CHR 0xD8, CHR 0xB9, CHR 0xD9,
          CHR 0x85] @ '' '' @ [CHR 0xD9, CHR 0x85, CHR 0xD8, CHR 0xAA, CHR 0xD8, CHR 0xB9,
          CHR 0xD8, CHR 0xAF, CHR 0xD8, CHR 0xAF] @ '' '' @ [CHR 0xD8, CHR 0xA7, CHR 0xD9,
          CHR 0x84, CHR 0xD9, CHR 0x84, CHR 0xD8, CHR 0xBA, CHR 0xD8, CHR 0xA7, CHR 0xD8,
          CHR 0xAA] @ '' '' @ [CHR 0xD9, CHR 0x84, CHR 0xD9, CHR 0x84, CHR 0xD8, CHR 0xAA,
          CHR 0xD8, CHR 0xB7, CHR 0xD8, CHR 0xA8, CHR 0xD9, CHR 0x8A, CHR 0xD9, CHR 0x82]
          @ ''.''))]"

definition context_t :: "TranslationContextType \<Rightarrow> string \<Rightarrow> string \<times> string list" where
  "context_t c key = t translations_table (language c) key"

section \<open>Sample values\<close>

definition env0 :: Env where
  "env0 = \<lparr>toastTimeouts = Map.empty, scheduled = [], next_handle = 0\<rparr>"

definition props_A :: Toast where
  "props_A =
     \<lparr>t_title = Some ''A'', t_description = None, t_action = None, t_open = None,
      t_onOpenChange = None, t_others = Map.empty\<rparr>"

definition props_B :: Toast where
  "props_B =
     \<lparr>t_title = Some ''B'', t_description = Some ''second'', t_action = None, t_open = None,
      t_onOpenChange = None, t_others = Map.empty\<rparr>"

definition toast_A :: ToasterToast where
  "toast_A = new_toast ''1'' props_A"

definition toast_B :: ToasterToast where
  "toast_B = new_toast ''2'' props_B"

definition empty_patch :: PartialToast where
  "empty_patch =
     \<lparr>p_id = None, p_title = None, p_description = None, p_action = None, p_open = None,
      p_onOpenChange = None, p_others = Map.empty\<rparr>"

text \<open>
  A small dictionary with strings missing: a key with the primary string only, a key
  whose French string is empty, and a key whose strings are all empty.
\<close>

definition sample_translations :: "string \<rightharpoonup> Entry" where
  "sample_translations = map_of
     [(''greeting'', [en \<mapsto> ''Hello'']),
      (''farewell'', entry ''Goodbye'' '''' ''wadaean''),
      (''blank'', entry '''' '''' '''')]"

text \<open>The module after one call \<^verbatim>\<open>toast(props_A)\<close>.\<close>

definition world_A :: World where
  "world_A = run initial [CallToast props_A]"

section \<open>Properties of the toast queue\<close>

lemma reducer_length:
  "length (toasts s) \<le> TOAST_LIMIT \<Longrightarrow> length (toasts (fst (reducer s a e))) \<le> TOAST_LIMIT"
  by (cases a) (auto simp: Let_def split: option.splits intro: le_trans [OF length_filter_le])

lemma dispatch_memoryState:
  "memoryState (dispatch a w) = fst (reducer (memoryState w) a (env w))"
  by (simp add: dispatch_def split: prod.splits)

lemma step_length:
  "length (toasts (memoryState w)) \<le> TOAST_LIMIT \<Longrightarrow>
   length (toasts (memoryState (step w ev))) \<le> TOAST_LIMIT"
proof (cases ev)
  case (Dispatch a)
  assume "length (toasts (memoryState w)) \<le> TOAST_LIMIT"
  then show ?thesis
    by (simp add: Dispatch dispatch_memoryState reducer_length)
next
  case (CallToast props)
  show ?thesis
    by (simp add: CallToast toast_def genId_def Let_def dispatch_memoryState)
next
  case (Fire h)
  assume "length (toasts (memoryState w)) \<le> TOAST_LIMIT"
  then show ?thesis
    by (auto simp: Fire fire_def timeout_callback_def dispatch_memoryState
        split: option.splits intro: le_trans [OF length_filter_le])
next
  case (Subscribe l)
  assume "length (toasts (memoryState w)) \<le> TOAST_LIMIT"
  then show ?thesis by (simp add: Subscribe subscribe_def)
next
  case (Unsubscribe l)
  assume "length (toasts (memoryState w)) \<le> TOAST_LIMIT"
  then show ?thesis by (simp add: Unsubscribe unsubscribe_def)
qed

lemma run_length:
  "length (toasts (memoryState w)) \<le> TOAST_LIMIT \<Longrightarrow>
   length (toasts (memoryState (run w evs))) \<le> TOAST_LIMIT"
  unfolding run_def
  by (induction evs arbitrary: w) (simp_all add: step_length)

text \<open>
  C7. Capacity invariant: every state reached from the initial, empty state by any run of
  events (dispatches of the four actions, calls of \<^verbatim>\<open>toast\<close>, timers firing, listeners
  coming and going) holds at most \<open>TOAST_LIMIT = 1\<close> records, and each of the four
  reducer actions keeps a queue of at most \<open>TOAST_LIMIT\<close> records within the bound.
\<close>

theorem capacity_invariant:
  "length (toasts (memoryState (run initial evs))) \<le> TOAST_LIMIT
   \<and> length (toasts (memoryState (run initial (map Dispatch as)))) \<le> 1
   \<and> (length (toasts s) \<le> TOAST_LIMIT \<longrightarrow>
        length (toasts (fst (reducer s a e))) \<le> TOAST_LIMIT)"
proof -
  have init: "length (toasts (memoryState initial)) \<le> TOAST_LIMIT"
    by (simp add: initial_def)
  have "length (toasts (memoryState (run initial (map Dispatch as)))) \<le> TOAST_LIMIT"
    using init by (rule run_length)
  then have "length (toasts (memoryState (run initial (map Dispatch as)))) \<le> 1"
    by (simp add: TOAST_LIMIT_def)
  with run_length [OF init, of evs] reducer_length [of s a e] show ?thesis
    by blast
qed

theorem capacity_invariant_witness:
  "length (toasts \<lparr>toasts = [toast_A]\<rparr>) \<le> TOAST_LIMIT
   \<and> length (toasts (fst (reducer \<lparr>toasts = [toast_A]\<rparr> (ADD_TOAST toast_B) env0))) \<le> TOAST_LIMIT"
proof -
  have h: "length (toasts \<lparr>toasts = [toast_A]\<rparr>) \<le> TOAST_LIMIT"
    by (simp add: TOAST_LIMIT_def)
  from capacity_invariant [of "[]" "[]" "\<lparr>toasts = [toast_A]\<rparr>" "ADD_TOAST toast_B" env0] h
  show ?thesis by blast
qed

subsection \<open>Sequences of additions\<close>

lemma take_append_take: "take n (ys @ take n zs) = take n (ys @ zs)"
  by (simp add: min_def)

lemma run_Cons: "run w (ev # evs) = run (step w ev) evs"
  by (simp add: run_def)

lemma run_Nil: "run w [] = w"
  by (simp add: run_def)

lemma dispatch_ADD_toasts:
  "toasts (memoryState (dispatch (ADD_TOAST x) w)) =
   take TOAST_LIMIT (x # toasts (memoryState w))"
  by (simp add: dispatch_memoryState)

lemma run_adds:
  "length (toasts (memoryState w)) \<le> TOAST_LIMIT \<Longrightarrow>
   toasts (memoryState (run w (map (\<lambda>x. Dispatch (ADD_TOAST x)) xs))) =
   take TOAST_LIMIT (rev xs @ toasts (memoryState w))"
proof (induction xs arbitrary: w)
  case Nil
  then show ?case by (simp add: run_Nil)
next
  case (Cons x xs)
  have "toasts (memoryState (run w (map (\<lambda>x. Dispatch (ADD_TOAST x)) (x # xs)))) =
        take TOAST_LIMIT (rev xs @ take TOAST_LIMIT (x # toasts (memoryState w)))"
    using step_length [OF Cons.prems, of "Dispatch (ADD_TOAST x)"]
    by (simp add: run_Cons Cons.IH dispatch_ADD_toasts)
  then show ?case
    by (simp add: take_append_take)
qed

lemma toast_count: "count (snd (toast props w)) = (count w + 1) mod MAX_SAFE_INTEGER"
  by (simp add: toast_def genId_def Let_def dispatch_def split: prod.splits)

lemma toast_toasts:
  "toasts (memoryState (snd (toast props w))) =
   take TOAST_LIMIT
     (new_toast (toString ((count w + 1) mod MAX_SAFE_INTEGER)) props # toasts (memoryState w))"
  by (simp add: toast_def genId_def Let_def dispatch_memoryState)

lemma run_calls:
  "length (toasts (memoryState w)) \<le> TOAST_LIMIT \<Longrightarrow>
   toasts (memoryState (run w (map CallToast ps))) =
   take TOAST_LIMIT (rev (issued (count w) ps) @ toasts (memoryState w))"
proof (induction ps arbitrary: w)
  case Nil
  then show ?case by (simp add: run_Nil)
next
  case (Cons p ps)
  have "toasts (memoryState (run w (map CallToast (p # ps)))) =
        take TOAST_LIMIT (rev (issued ((count w + 1) mod MAX_SAFE_INTEGER) ps)
          @ take TOAST_LIMIT (new_toast (toString ((count w + 1) mod MAX_SAFE_INTEGER)) p
              # toasts (memoryState w)))"
    using step_length [OF Cons.prems, of "CallToast p"]
    by (simp add: run_Cons Cons.IH toast_count toast_toasts)
  then show ?case
    by (simp add: take_append_take)
qed

lemma length_issued: "length (issued c ps) = length ps"
  by (induction ps arbitrary: c) simp_all

text \<open>
  C1. From the empty queue, after any sequence \<open>xs\<close> of \<^verbatim>\<open>ADD_TOAST\<close> dispatches the
  queue is the \<open>TOAST_LIMIT\<close> most recently added records, most recent first, and its
  length is \<open>min TOAST_LIMIT (length xs)\<close>; as \<open>xs\<close> is arbitrary this holds after each
  add of a sequence. The same holds for calls of \<^verbatim>\<open>toast(props)\<close>, with the records the
  calls create. With the capacity 1: after adding \<open>A\<close> and then \<open>B\<close> the queue is \<open>[B]\<close>.
\<close>

theorem add_keeps_most_recent:
  "toasts (memoryState (run initial (map (\<lambda>x. Dispatch (ADD_TOAST x)) xs))) =
     take TOAST_LIMIT (rev xs)
   \<and> length (toasts (memoryState (run initial (map (\<lambda>x. Dispatch (ADD_TOAST x)) xs)))) =
     min TOAST_LIMIT (length xs)
   \<and> toasts (memoryState (run initial (map CallToast ps))) =
     take TOAST_LIMIT (rev (issued 0 ps))
   \<and> length (toasts (memoryState (run initial (map CallToast ps)))) =
     min TOAST_LIMIT (length ps)
   \<and> toasts (memoryState (run initial [Dispatch (ADD_TOAST A), Dispatch (ADD_TOAST B)])) = [B]
   \<and> toasts (memoryState (run initial [CallToast pa, CallToast pb])) = [new_toast ''2'' pb]"
proof -
  have init: "length (toasts (memoryState initial)) \<le> TOAST_LIMIT"
    by (simp add: initial_def)
  have empty: "toasts (memoryState initial) = []" and zero: "count initial = 0"
    by (simp_all add: initial_def)
  have adds: "toasts (memoryState (run initial (map (\<lambda>x. Dispatch (ADD_TOAST x)) xs))) =
      take TOAST_LIMIT (rev xs)" for xs
    using run_adds [OF init, of xs] by (simp add: empty)
  have calls: "toasts (memoryState (run initial (map CallToast ps))) =
      take TOAST_LIMIT (rev (issued 0 ps))" for ps
    using run_calls [OF init, of ps] by (simp add: empty zero)
  have two: "toasts (memoryState (run initial [Dispatch (ADD_TOAST A), Dispatch (ADD_TOAST B)])) = [B]"
    using adds [of "[A, B]"] by (simp add: TOAST_LIMIT_def)
  have "toString 2 = ''2''"
    by (simp add: toString.simps)
  then have id2: "toString (Suc (Suc 0)) = ''2''"
    by (simp add: numeral_2_eq_2)
  have calls2: "toasts (memoryState (run initial [CallToast pa, CallToast pb])) = [new_toast ''2'' pb]"
    using calls [of "[pa, pb]"] by (simp add: TOAST_LIMIT_def MAX_SAFE_INTEGER_def id2)
  show ?thesis
    by (simp add: adds calls two calls2 length_issued min.commute)
qed

theorem add_keeps_most_recent_witness:
  "toasts (memoryState (run initial [Dispatch (ADD_TOAST toast_A), Dispatch (ADD_TOAST toast_B)])) =
     [toast_B]
   \<and> toasts (memoryState (run initial [CallToast props_A, CallToast props_B])) = [toast_B]"
  using add_keeps_most_recent
    [of "[toast_A, toast_B]" "[props_A, props_B]" toast_A toast_B props_A props_B]
  unfolding toast_B_def by blast

subsection \<open>Updates\<close>

lemma map_unchanged: "(\<And>x. x \<in> set xs \<Longrightarrow> f x = x) \<Longrightarrow> map f xs = xs"
  by (induction xs) simp_all

lemma filter_unchanged: "(\<And>x. x \<in> set xs \<Longrightarrow> P x) \<Longrightarrow> filter P xs = xs"
  by (induction xs) simp_all

lemma merge_id_only: "merge x (empty_patch\<lparr>p_id := Some (id_t x)\<rparr>) = x"
  by (simp add: merge_def spread_def empty_patch_def)

lemma merge_keeps_id: "Some (id_t x) = p_id p \<Longrightarrow> id_t (merge x p) = id_t x"
  by (auto simp: merge_def spread_def split: option.splits)

lemma reducer_UPDATE_ids:
  "map id_t (toasts (fst (reducer s (UPDATE_TOAST p) e))) = map id_t (toasts s)"
  by (simp add: merge_keeps_id)

lemma reducer_UPDATE_empty:
  "reducer s (UPDATE_TOAST (empty_patch\<lparr>p_id := Some i\<rparr>)) e = (s, e)"
proof -
  have "map (\<lambda>x. if Some (id_t x) = p_id (empty_patch\<lparr>p_id := Some i\<rparr>)
                  then merge x (empty_patch\<lparr>p_id := Some i\<rparr>) else x) (toasts s) = toasts s"
    by (rule map_unchanged) (auto simp: merge_id_only)
  then show ?thesis by simp
qed

lemma dispatch_env: "env (dispatch a w) = snd (reducer (memoryState w) a (env w))"
  by (simp add: dispatch_def split: prod.splits)

text \<open>
  C8. An update that carries no field besides the ID leaves every record, the whole queue
  and the timer table as they were, at the reducer and through the \<^verbatim>\<open>update\<close> closure of
  \<^verbatim>\<open>toast()\<close>; in particular a record of the queue merged with the empty patch for its
  own ID is the record itself. An update with any fields leaves the ID of every record of
  the queue, position by position, as it was.
\<close>

theorem update_identity:
  "reducer s (UPDATE_TOAST (empty_patch\<lparr>p_id := Some i\<rparr>)) e = (s, e)
   \<and> (x \<in> set (toasts s) \<longrightarrow> merge x (empty_patch\<lparr>p_id := Some (id_t x)\<rparr>) = x)
   \<and> memoryState (update i empty_patch w) = memoryState w
   \<and> map id_t (toasts (fst (reducer s (UPDATE_TOAST p) e))) = map id_t (toasts s)
   \<and> map id_t (toasts (memoryState (update i p w))) = map id_t (toasts (memoryState w))"
  by (simp add: reducer_UPDATE_empty merge_id_only update_def dispatch_memoryState
      reducer_UPDATE_ids del: reducer.simps)

theorem update_identity_witness:
  "toast_A \<in> set (toasts \<lparr>toasts = [toast_A]\<rparr>)
   \<and> merge toast_A (empty_patch\<lparr>p_id := Some (id_t toast_A)\<rparr>) = toast_A
   \<and> reducer \<lparr>toasts = [toast_A]\<rparr> (UPDATE_TOAST (empty_patch\<lparr>p_id := Some ''1''\<rparr>)) env0
       = (\<lparr>toasts = [toast_A]\<rparr>, env0)
   \<and> map id_t (toasts (fst (reducer \<lparr>toasts = [toast_A]\<rparr>
         (UPDATE_TOAST (empty_patch\<lparr>p_id := Some ''1'', p_title := Some (Some ''new'')\<rparr>))
         env0))) = [''1'']"
  using update_identity [of "\<lparr>toasts = [toast_A]\<rparr>" "''1''" env0 toast_A initial
      "empty_patch\<lparr>p_id := Some ''1'', p_title := Some (Some ''new'')\<rparr>"]
  by (simp add: toast_A_def new_toast_def del: reducer.simps)

subsection \<open>Unknown IDs\<close>

lemma addToRemoveQueue_pending:
  "toastTimeouts e i \<noteq> None \<Longrightarrow> addToRemoveQueue i e = e"
  by (simp add: addToRemoveQueue_def)

lemma addToRemoveQueue_fresh:
  "toastTimeouts e i = None \<Longrightarrow>
   addToRemoveQueue i e =
     e\<lparr>toastTimeouts := (toastTimeouts e)(i \<mapsto> next_handle e),
       scheduled := scheduled e @ [(next_handle e, TOAST_REMOVE_DELAY, i)],
       next_handle := Suc (next_handle e)\<rparr>"
  by (simp add: addToRemoveQueue_def setTimeout_def)

lemma unknown_UPDATE:
  assumes "i \<notin> id_t ` set (toasts s)"
  shows "reducer s (UPDATE_TOAST (p\<lparr>p_id := Some i\<rparr>)) e = (s, e)"
proof -
  have "map (\<lambda>x. if Some (id_t x) = p_id (p\<lparr>p_id := Some i\<rparr>)
                  then merge x (p\<lparr>p_id := Some i\<rparr>) else x) (toasts s) = toasts s"
    using assms by (intro map_unchanged) auto
  then show ?thesis by simp
qed

lemma unknown_REMOVE:
  assumes "i \<notin> id_t ` set (toasts s)"
  shows "reducer s (REMOVE_TOAST (Some i)) e = (s, e)"
proof -
  have "filter (\<lambda>x. id_t x \<noteq> i) (toasts s) = toasts s"
    using assms by (intro filter_unchanged) auto
  then show ?thesis by simp
qed

lemma unknown_DISMISS_state:
  assumes "i \<notin> id_t ` set (toasts s)"
  shows "fst (reducer s (DISMISS_TOAST (Some i)) e) = s"
proof -
  have "map (\<lambda>x. if Some (id_t x) = Some i \<or> Some i = None
                  then x\<lparr>open := Some False\<rparr> else x) (toasts s) = toasts s"
    using assms by (intro map_unchanged) auto
  then show ?thesis by (simp add: Let_def)
qed

lemma DISMISS_env:
  "i \<noteq> [] \<Longrightarrow> snd (reducer s (DISMISS_TOAST (Some i)) e) = addToRemoveQueue i e"
  by (simp add: Let_def)

text \<open>
  C3, as the code has it. For an ID \<open>i\<close> that matches no record of the queue, an update
  and a remove return the queue state and the timer table as they were. A dismiss returns
  the queue state as it was, but for a non-empty \<open>i\<close> it calls \<open>addToRemoveQueue i\<close>:
  unless a timer for \<open>i\<close> is pending already, a removal timer for \<open>i\<close> is scheduled
  and entered in the timer table.
\<close>

theorem unknown_id_noop:
  assumes "i \<notin> id_t ` set (toasts s)"
  shows "reducer s (UPDATE_TOAST (p\<lparr>p_id := Some i\<rparr>)) e = (s, e)
   \<and> reducer s (REMOVE_TOAST (Some i)) e = (s, e)
   \<and> fst (reducer s (DISMISS_TOAST (Some i)) e) = s
   \<and> (i \<noteq> [] \<longrightarrow> snd (reducer s (DISMISS_TOAST (Some i)) e) = addToRemoveQueue i e)
   \<and> (i \<noteq> [] \<longrightarrow> toastTimeouts e i \<noteq> None \<longrightarrow>
        reducer s (DISMISS_TOAST (Some i)) e = (s, e))
   \<and> (i \<noteq> [] \<longrightarrow> toastTimeouts e i = None \<longrightarrow>
        snd (reducer s (DISMISS_TOAST (Some i)) e) =
          e\<lparr>toastTimeouts := (toastTimeouts e)(i \<mapsto> next_handle e),
            scheduled := scheduled e @ [(next_handle e, TOAST_REMOVE_DELAY, i)],
            next_handle := Suc (next_handle e)\<rparr>)"
proof -
  have "reducer s (DISMISS_TOAST (Some i)) e = (s, e)"
    if "i \<noteq> []" "toastTimeouts e i \<noteq> None"
    using unknown_DISMISS_state [OF assms, of e] DISMISS_env [OF that(1), of s e]
      addToRemoveQueue_pending [OF that(2)]
    by (metis prod.collapse)
  then show ?thesis
    using unknown_UPDATE [OF assms] unknown_REMOVE [OF assms] unknown_DISMISS_state [OF assms]
      DISMISS_env addToRemoveQueue_fresh
    by (simp del: reducer.simps)
qed

theorem unknown_id_noop_witness:
  "''7'' \<notin> id_t ` set (toasts \<lparr>toasts = [toast_A]\<rparr>)
   \<and> reducer \<lparr>toasts = [toast_A]\<rparr> (UPDATE_TOAST (empty_patch\<lparr>p_id := Some ''7''\<rparr>)) env0
       = (\<lparr>toasts = [toast_A]\<rparr>, env0)
   \<and> reducer \<lparr>toasts = [toast_A]\<rparr> (REMOVE_TOAST (Some ''7'')) env0
       = (\<lparr>toasts = [toast_A]\<rparr>, env0)
   \<and> fst (reducer \<lparr>toasts = [toast_A]\<rparr> (DISMISS_TOAST (Some ''7'')) env0)
       = \<lparr>toasts = [toast_A]\<rparr>
   \<and> snd (reducer \<lparr>toasts = [toast_A]\<rparr> (DISMISS_TOAST (Some ''7'')) env0)
       = addToRemoveQueue ''7'' env0"
proof -
  have h: "''7'' \<notin> id_t ` set (toasts \<lparr>toasts = [toast_A]\<rparr>)"
    by (simp add: toast_A_def new_toast_def)
  have n: "''7'' \<noteq> []" by simp
  from unknown_id_noop [OF h, of empty_patch env0] h n show ?thesis
    by blast
qed

text \<open>
  The claim as stated fails for dismiss: with the record \<open>''1''\<close> in the queue and no
  timer pending, dismissing the unknown ID \<open>''7''\<close> leaves the queue as it was and yet
  schedules a timer for \<open>''7''\<close> and enters it in the timer table.
\<close>

theorem dismiss_unknown_id_counterexample:
  "''7'' \<notin> id_t ` set (toasts \<lparr>toasts = [toast_A]\<rparr>)
   \<and> fst (reducer \<lparr>toasts = [toast_A]\<rparr> (DISMISS_TOAST (Some ''7'')) env0)
       = \<lparr>toasts = [toast_A]\<rparr>
   \<and> toastTimeouts env0 ''7'' = None
   \<and> toastTimeouts (snd (reducer \<lparr>toasts = [toast_A]\<rparr> (DISMISS_TOAST (Some ''7'')) env0)) ''7''
       = Some 0
   \<and> scheduled env0 = []
   \<and> scheduled (snd (reducer \<lparr>toasts = [toast_A]\<rparr> (DISMISS_TOAST (Some ''7'')) env0))
       = [(0, TOAST_REMOVE_DELAY, ''7'')]
   \<and> snd (reducer \<lparr>toasts = [toast_A]\<rparr> (DISMISS_TOAST (Some ''7'')) env0) \<noteq> env0"
  by (simp add: toast_A_def new_toast_def env0_def Let_def addToRemoveQueue_def setTimeout_def)

subsection \<open>Effects of the reducer\<close>

lemma reducer_state_env_free: "fst (reducer s a e1) = fst (reducer s a e2)"
  by (cases a) (simp_all add: Let_def split: option.splits)

text \<open>
  C4, as the code has it. The queue state the reducer returns depends on the state and the
  action only, whatever the timer table holds. Add, update and remove have no effect
  besides the returned state. Dismiss also works on the timer table: without an ID it
  calls \<open>addToRemoveQueue\<close> for the ID of every record of the queue, with a non-empty ID
  for that ID.
\<close>

theorem reducer_state_pure:
  "fst (reducer s a e1) = fst (reducer s a e2)
   \<and> snd (reducer s (ADD_TOAST x) e) = e
   \<and> snd (reducer s (UPDATE_TOAST p) e) = e
   \<and> snd (reducer s (REMOVE_TOAST r) e) = e
   \<and> snd (reducer s (DISMISS_TOAST None) e) =
       fold (\<lambda>x. addToRemoveQueue (id_t x)) (toasts s) e
   \<and> snd (reducer s (DISMISS_TOAST (Some (c # cs))) e) = addToRemoveQueue (c # cs) e"
  using reducer_state_env_free [of s a e1 e2]
  by (simp add: Let_def split: option.splits)

theorem reducer_state_pure_witness:
  "fst (reducer \<lparr>toasts = [toast_A]\<rparr> (DISMISS_TOAST (Some ''1'')) env0) =
   fst (reducer \<lparr>toasts = [toast_A]\<rparr> (DISMISS_TOAST (Some ''1'')) (addToRemoveQueue ''1'' env0))
   \<and> snd (reducer \<lparr>toasts = [toast_A]\<rparr> (ADD_TOAST toast_B) env0) = env0
   \<and> snd (reducer \<lparr>toasts = [toast_A]\<rparr> (DISMISS_TOAST (Some ''1'')) env0) =
       addToRemoveQueue ''1'' env0"
  using reducer_state_pure [of "\<lparr>toasts = [toast_A]\<rparr>" "DISMISS_TOAST (Some ''1'')" env0
      "addToRemoveQueue ''1'' env0" toast_B env0 empty_patch None "CHR ''1''" "[]"]
  by (simp del: reducer.simps)

text \<open>
  The claim as stated fails: dismissing all records of a queue that holds the record
  \<open>''1''\<close> changes the timer table and schedules a timer, an effect besides the state
  returned.
\<close>

theorem reducer_side_effect_counterexample:
  "toastTimeouts env0 ''1'' = None
   \<and> toastTimeouts (snd (reducer \<lparr>toasts = [toast_A]\<rparr> (DISMISS_TOAST None) env0)) ''1'' = Some 0
   \<and> scheduled (snd (reducer \<lparr>toasts = [toast_A]\<rparr> (DISMISS_TOAST None) env0))
       = [(0, TOAST_REMOVE_DELAY, ''1'')]
   \<and> snd (reducer \<lparr>toasts = [toast_A]\<rparr> (DISMISS_TOAST None) env0) \<noteq> env0"
  by (simp add: toast_A_def new_toast_def env0_def Let_def addToRemoveQueue_def setTimeout_def)

subsection \<open>Timers\<close>

lemma addToRemoveQueue_consistent:
  assumes "timers_consistent e"
  shows "timers_consistent (addToRemoveQueue i e)"
proof (cases "toastTimeouts e i")
  case (Some h)
  then show ?thesis using assms by (simp add: addToRemoveQueue_pending)
next
  case None
  then have "i \<notin> (\<lambda>entry. snd (snd entry)) ` set (scheduled e)"
    using assms by (auto simp: timers_consistent_def)
  moreover have "next_handle e \<notin> fst ` set (scheduled e)"
    using assms by (auto simp: timers_consistent_def)
  ultimately show ?thesis
    using assms None
    by (auto simp: addToRemoveQueue_fresh timers_consistent_def less_Suc_eq)
qed

lemma fold_addToRemoveQueue_consistent:
  "timers_consistent e \<Longrightarrow>
   timers_consistent (fold (\<lambda>x. addToRemoveQueue (id_t x)) xs e)"
  by (induction xs arbitrary: e) (simp_all add: addToRemoveQueue_consistent)

lemma reducer_consistent:
  "timers_consistent e \<Longrightarrow> timers_consistent (snd (reducer s a e))"
  by (cases a)
    (auto simp: Let_def addToRemoveQueue_consistent fold_addToRemoveQueue_consistent
      split: option.splits)

lemma fire_env:
  "map_of (scheduled (env w)) h = Some (d, i) \<Longrightarrow>
   env (fire h w) =
     (env w)\<lparr>scheduled := filter (\<lambda>entry. fst entry \<noteq> h) (scheduled (env w)),
       toastTimeouts := (toastTimeouts (env w))(i := None)\<rparr>"
  by (simp add: fire_def timeout_callback_def dispatch_env)

lemma fire_idle: "map_of (scheduled (env w)) h = None \<Longrightarrow> fire h w = w"
  by (simp add: fire_def)

lemma remove_timer_consistent:
  assumes "timers_consistent e" and mem: "(h, d, i) \<in> set (scheduled e)"
  shows "timers_consistent
     (e\<lparr>scheduled := filter (\<lambda>entry. fst entry \<noteq> h) (scheduled e),
        toastTimeouts := (toastTimeouts e)(i := None)\<rparr>)"
proof -
  let ?f = "\<lambda>entry::nat \<times> nat \<times> string. snd (snd entry)"
  let ?rest = "filter (\<lambda>entry. fst entry \<noteq> h) (scheduled e)"
  have dh: "distinct (map fst (scheduled e))"
    and di: "distinct (map ?f (scheduled e))"
    and dm: "?f ` set (scheduled e) = dom (toastTimeouts e)"
    and lt: "\<forall>entry \<in> set (scheduled e). fst entry < next_handle e"
    using assms(1) by (simp_all add: timers_consistent_def)
  have inj_h: "inj_on fst (set (scheduled e))" and inj_i: "inj_on ?f (set (scheduled e))"
    using dh di by (simp_all add: distinct_map)
  have only: "entry = (h, d, i)" if "entry \<in> set (scheduled e)" "fst entry = h" for entry
    using inj_onD [OF inj_h _ that(1) mem] that(2) by simp
  have uniq: "entry = (h, d, i)" if "entry \<in> set (scheduled e)" "?f entry = i" for entry
    using inj_onD [OF inj_i _ that(1) mem] that(2) by simp
  have rest: "set ?rest = set (scheduled e) - {(h, d, i)}"
  proof (rule set_eqI)
    fix entry
    show "entry \<in> set ?rest \<longleftrightarrow> entry \<in> set (scheduled e) - {(h, d, i)}"
    proof (cases "entry \<in> set (scheduled e)")
      case True
      then have "fst entry = h \<longleftrightarrow> entry = (h, d, i)"
        using only [of entry] by fastforce
      with True show ?thesis by simp
    next
      case False
      then show ?thesis by simp
    qed
  qed
  have "?f ` (set (scheduled e) - {(h, d, i)}) = ?f ` set (scheduled e) - ?f ` {(h, d, i)}"
    using mem by (intro inj_on_image_set_diff [OF inj_i]) simp_all
  then have "?f ` set ?rest = ?f ` set (scheduled e) - {i}"
    by (simp only: rest) simp
  then have ids: "?f ` set ?rest = dom (toastTimeouts e) - {i}"
    by (simp only: dm)
  have d1: "distinct (map fst ?rest)" and d2: "distinct (map ?f ?rest)"
    using dh di by (simp_all add: distinct_map_filter)
  have l: "\<forall>entry \<in> set ?rest. fst entry < next_handle e"
    using lt by simp
  show ?thesis
    unfolding timers_consistent_def
    using d1 d2 l ids by simp
qed

lemma fire_consistent:
  assumes "timers_consistent (env w)"
  shows "timers_consistent (env (fire h w))"
proof (cases "map_of (scheduled (env w)) h")
  case None
  then show ?thesis using assms by (simp add: fire_idle)
next
  case (Some di)
  obtain d i where di: "di = (d, i)" by (cases di)
  have mem: "(h, d, i) \<in> set (scheduled (env w))"
    using Some di by (auto dest: map_of_SomeD)
  show ?thesis
    using remove_timer_consistent [OF assms mem] fire_env [of w h d i] Some di by simp
qed

lemma step_consistent:
  "timers_consistent (env w) \<Longrightarrow> timers_consistent (env (step w ev))"
proof (cases ev)
  case (Dispatch a)
  assume "timers_consistent (env w)"
  then show ?thesis by (simp add: Dispatch dispatch_env reducer_consistent)
next
  case (CallToast props)
  assume "timers_consistent (env w)"
  then show ?thesis by (simp add: CallToast toast_def genId_def Let_def dispatch_env)
next
  case (Fire h)
  assume "timers_consistent (env w)"
  then show ?thesis by (simp add: Fire fire_consistent)
next
  case (Subscribe l)
  assume "timers_consistent (env w)"
  then show ?thesis by (simp add: Subscribe subscribe_def)
next
  case (Unsubscribe l)
  assume "timers_consistent (env w)"
  then show ?thesis by (simp add: Unsubscribe unsubscribe_def)
qed

lemma run_consistent:
  "timers_consistent (env w) \<Longrightarrow> timers_consistent (env (run w evs))"
  unfolding run_def
  by (induction evs arbitrary: w) (simp_all add: step_consistent)

lemma initial_consistent: "timers_consistent (env initial)"
  by (simp add: initial_def timers_consistent_def)

lemma distinct_filter_le_one:
  "distinct (map f xs) \<Longrightarrow> length (filter (\<lambda>x. f x = k) xs) \<le> 1"
proof (induction xs)
  case Nil
  then show ?case by simp
next
  case (Cons x xs)
  show ?case
  proof (cases "f x = k")
    case True
    with Cons.prems have "filter (\<lambda>x. f x = k) xs = []"
      by (auto simp: filter_empty_conv image_iff)
    with True show ?thesis by simp
  next
    case False
    with Cons show ?thesis by simp
  qed
qed

lemma at_most_one_timer:
  assumes "timers_consistent e"
  shows "length (timers_for i e) \<le> 1"
proof -
  have "distinct (map (\<lambda>entry. snd (snd entry)) (scheduled e))"
    using assms by (simp add: timers_consistent_def)
  then show ?thesis
    unfolding timers_for_def
    by (rule distinct_filter_le_one [of "\<lambda>entry. snd (snd entry)"])
qed

lemma DISMISS_all_env:
  "snd (reducer s (DISMISS_TOAST None) e) = fold (\<lambda>x. addToRemoveQueue (id_t x)) (toasts s) e"
  by (simp add: Let_def)

lemma DISMISS_empty_env:
  "snd (reducer s (DISMISS_TOAST (Some [])) e) =
   fold (\<lambda>x. addToRemoveQueue (id_t x)) (toasts s) e"
  by (simp add: Let_def)

lemma addToRemoveQueue_other:
  "toastTimeouts e i \<noteq> None \<Longrightarrow>
   timers_for i (addToRemoveQueue j e) = timers_for i e
   \<and> toastTimeouts (addToRemoveQueue j e) i \<noteq> None"
  by (cases "toastTimeouts e j")
    (auto simp: addToRemoveQueue_fresh addToRemoveQueue_pending timers_for_def)

lemma fold_addToRemoveQueue_other:
  "toastTimeouts e i \<noteq> None \<Longrightarrow>
   timers_for i (fold (\<lambda>x. addToRemoveQueue (id_t x)) xs e) = timers_for i e
   \<and> toastTimeouts (fold (\<lambda>x. addToRemoveQueue (id_t x)) xs e) i \<noteq> None"
proof (induction xs arbitrary: e)
  case Nil
  then show ?case by simp
next
  case (Cons x xs)
  from addToRemoveQueue_other [OF Cons.prems, of "id_t x"]
  have 1: "timers_for i (addToRemoveQueue (id_t x) e) = timers_for i e"
    and 2: "toastTimeouts (addToRemoveQueue (id_t x) e) i \<noteq> None"
    by simp_all
  from Cons.IH [OF 2] 1 show ?case by simp
qed

lemma DISMISS_pending_timer:
  assumes "toastTimeouts e i \<noteq> None"
  shows "timers_for i (snd (reducer s (DISMISS_TOAST j) e)) = timers_for i e
   \<and> toastTimeouts (snd (reducer s (DISMISS_TOAST j) e)) i \<noteq> None"
proof (cases j)
  case None
  show ?thesis
    unfolding None DISMISS_all_env by (rule fold_addToRemoveQueue_other [OF assms])
next
  case (Some k)
  show ?thesis
  proof (cases "k = []")
    case True
    show ?thesis
      unfolding Some True DISMISS_empty_env by (rule fold_addToRemoveQueue_other [OF assms])
  next
    case False
    show ?thesis
      unfolding Some DISMISS_env [OF False] by (rule addToRemoveQueue_other [OF assms])
  qed
qed

lemma reducer_pending_timer:
  assumes "toastTimeouts e i \<noteq> None"
  shows "timers_for i (snd (reducer s a e)) = timers_for i e
   \<and> toastTimeouts (snd (reducer s a e)) i \<noteq> None"
proof (cases a)
  case (DISMISS_TOAST j)
  show ?thesis
    unfolding DISMISS_TOAST by (rule DISMISS_pending_timer [OF assms])
next
  case (REMOVE_TOAST j)
  with assms show ?thesis by (simp split: option.splits)
qed (use assms in simp_all)

lemma addToRemoveQueue_enters: "toastTimeouts (addToRemoveQueue i e) i \<noteq> None"
  by (cases "toastTimeouts e i") (auto simp: addToRemoveQueue_fresh addToRemoveQueue_pending)

lemma fold_addToRemoveQueue_enters:
  "x \<in> set xs \<Longrightarrow> toastTimeouts (fold (\<lambda>x. addToRemoveQueue (id_t x)) xs e) (id_t x) \<noteq> None"
proof (induction xs arbitrary: e)
  case Nil
  then show ?case by simp
next
  case (Cons y ys)
  show ?case
  proof (cases "x = y")
    case True
    have "toastTimeouts (addToRemoveQueue (id_t y) e) (id_t y) \<noteq> None"
      by (rule addToRemoveQueue_enters)
    from fold_addToRemoveQueue_other [OF this, of ys] True show ?thesis by simp
  next
    case False
    with Cons show ?thesis by simp
  qed
qed

lemma DISMISS_enters:
  assumes "x \<in> set (toasts s)"
  shows "toastTimeouts (snd (reducer s (DISMISS_TOAST (Some (id_t x))) e)) (id_t x) \<noteq> None"
proof (cases "id_t x = []")
  case True
  have "toastTimeouts (snd (reducer s (DISMISS_TOAST (Some [])) e)) (id_t x) \<noteq> None"
    unfolding DISMISS_empty_env by (rule fold_addToRemoveQueue_enters [OF assms])
  with True show ?thesis by simp
next
  case False
  show ?thesis
    unfolding DISMISS_env [OF False] by (rule addToRemoveQueue_enters)
qed

lemma DISMISS_closes:
  "x \<in> set (toasts s) \<Longrightarrow>
   x\<lparr>open := Some False\<rparr> \<in> set (toasts (fst (reducer s (DISMISS_TOAST (Some (id_t x))) e)))"
  by (simp add: Let_def image_iff) (rule bexI [of _ x], simp_all)

lemma reducer_DISMISS_ids:
  "map id_t (toasts (fst (reducer s (DISMISS_TOAST j) e))) = map id_t (toasts s)"
  by (simp add: Let_def)

lemma reducer_REMOVE_other:
  "i \<in> id_t ` set (toasts s) \<Longrightarrow> j \<noteq> i \<Longrightarrow>
   i \<in> id_t ` set (toasts (fst (reducer s (REMOVE_TOAST (Some j)) e)))"
  by auto

lemma reducer_REMOVE_gone:
  "i \<notin> id_t ` set (toasts (fst (reducer s (REMOVE_TOAST (Some i)) e)))"
  by auto

lemma fire_removes:
  "map_of (scheduled (env w)) h = Some (d, i) \<Longrightarrow>
   i \<notin> id_t ` set (toasts (memoryState (fire h w)))"
  by (auto simp: fire_def timeout_callback_def dispatch_memoryState)

subsection \<open>Dismissal and removal\<close>

lemma reducer_ADD_single: "toasts (fst (reducer s (ADD_TOAST y) e)) = [y]"
  by (simp add: TOAST_LIMIT_def)

lemma dismiss_twice:
  assumes "x \<in> set (toasts (memoryState w))"
  shows "timers_for (id_t x) (env (dismiss (id_t x) (dismiss (id_t x) w))) =
         timers_for (id_t x) (env (dismiss (id_t x) w))"
proof -
  have "toastTimeouts (env (dismiss (id_t x) w)) (id_t x) \<noteq> None"
    unfolding dismiss_def dispatch_env by (rule DISMISS_enters [OF assms])
  from reducer_pending_timer [OF this] show ?thesis
    unfolding dismiss_def dispatch_env by blast
qed

text \<open>
  C5, as the code has it. Dismissing the ID of a record \<open>x\<close> of the queue leaves \<open>x\<close>
  in the queue with \<open>open = false\<close> and a timer for its ID in the timer table. Updates
  and dismisses keep the IDs of the queue as they are, and so does a remove for another
  ID. A remove for the ID, by hand or by the timer firing, and a remove without an ID
  delete the record; an add leaves only the added record in the queue, the capacity being
  1. A dismiss of an ID whose timer is pending leaves the pending timers of that ID as
  they are, so two dismisses in a row schedule what one does; and in every state reached
  from the initial one at most one timer per ID is pending.
\<close>

theorem dismiss_then_remove:
  "(x \<in> set (toasts s) \<longrightarrow>
      x\<lparr>open := Some False\<rparr> \<in> set (toasts (fst (reducer s (DISMISS_TOAST (Some (id_t x))) e)))
      \<and> toastTimeouts (snd (reducer s (DISMISS_TOAST (Some (id_t x))) e)) (id_t x) \<noteq> None)
   \<and> map id_t (toasts (fst (reducer s (UPDATE_TOAST p) e))) = map id_t (toasts s)
   \<and> map id_t (toasts (fst (reducer s (DISMISS_TOAST j) e))) = map id_t (toasts s)
   \<and> (i \<in> id_t ` set (toasts s) \<longrightarrow> k \<noteq> i \<longrightarrow>
        i \<in> id_t ` set (toasts (fst (reducer s (REMOVE_TOAST (Some k)) e))))
   \<and> i \<notin> id_t ` set (toasts (fst (reducer s (REMOVE_TOAST (Some i)) e)))
   \<and> toasts (fst (reducer s (REMOVE_TOAST None) e)) = []
   \<and> (map_of (scheduled (env w)) h = Some (d, i) \<longrightarrow>
        i \<notin> id_t ` set (toasts (memoryState (fire h w))))
   \<and> toasts (fst (reducer s (ADD_TOAST y) e)) = [y]
   \<and> (toastTimeouts e i \<noteq> None \<longrightarrow>
        timers_for i (snd (reducer s (DISMISS_TOAST (Some i)) e)) = timers_for i e)
   \<and> (x \<in> set (toasts (memoryState v)) \<longrightarrow>
        timers_for (id_t x) (env (dismiss (id_t x) (dismiss (id_t x) v))) =
        timers_for (id_t x) (env (dismiss (id_t x) v)))
   \<and> length (timers_for i (env (run initial evs))) \<le> 1"
proof -
  have "length (timers_for i (env (run initial evs))) \<le> 1"
    by (rule at_most_one_timer [OF run_consistent [OF initial_consistent]])
  moreover have "toasts (fst (reducer s (REMOVE_TOAST None) e)) = []"
    by simp
  ultimately show ?thesis
    using DISMISS_closes [of x s e] DISMISS_enters [of x s e] reducer_UPDATE_ids [of s p e]
      reducer_DISMISS_ids [of s j e] reducer_REMOVE_other [of i s k e]
      reducer_REMOVE_gone [of i s e] fire_removes [of w h d i] reducer_ADD_single [of s y e]
      reducer_pending_timer [of e i s "DISMISS_TOAST (Some i)"] dismiss_twice [of x v]
    by blast
qed

lemma world_A_eq:
  "world_A = initial\<lparr>count := 1, memoryState := \<lparr>toasts = [toast_A]\<rparr>\<rparr>"
  by (simp add: world_A_def run_def toast_def genId_def dispatch_def initial_def
      MAX_SAFE_INTEGER_def TOAST_LIMIT_def toString.simps toast_A_def)

theorem dismiss_then_remove_witness:
  "toast_A \<in> set (toasts (memoryState world_A))
   \<and> toast_A\<lparr>open := Some False\<rparr> \<in>
       set (toasts (fst (reducer (memoryState world_A) (DISMISS_TOAST (Some ''1'')) env0)))
   \<and> toastTimeouts (snd (reducer (memoryState world_A) (DISMISS_TOAST (Some ''1'')) env0)) ''1''
       \<noteq> None
   \<and> map_of (scheduled (env (dismiss ''1'' world_A))) 0 = Some (TOAST_REMOVE_DELAY, ''1'')
   \<and> ''1'' \<notin> id_t ` set (toasts (memoryState (fire 0 (dismiss ''1'' world_A))))
   \<and> timers_for ''1'' (env (dismiss ''1'' (dismiss ''1'' world_A))) =
       timers_for ''1'' (env (dismiss ''1'' world_A))"
proof -
  have a: "toast_A \<in> set (toasts (memoryState world_A))"
    by (simp add: world_A_eq)
  have i: "id_t toast_A = ''1''"
    by (simp add: toast_A_def new_toast_def)
  have t: "map_of (scheduled (env (dismiss ''1'' world_A))) 0 = Some (TOAST_REMOVE_DELAY, ''1'')"
    by (simp add: world_A_eq dismiss_def dispatch_def initial_def Let_def
        addToRemoveQueue_def setTimeout_def)
  from dismiss_then_remove [where x = toast_A and s = "memoryState world_A" and e = env0
      and i = "''1''" and w = "dismiss ''1'' world_A" and h = 0 and d = TOAST_REMOVE_DELAY
      and v = world_A] a t
  show ?thesis
    unfolding i by blast
qed

text \<open>
  The claim as stated fails: after \<^verbatim>\<open>toast(props_A)\<close> and the dismiss of its ID
  \<open>''1''\<close>, the next \<^verbatim>\<open>toast(props_B)\<close> evicts the dismissed record, with no remove
  dispatched and the timer of \<open>''1''\<close> still pending.
\<close>

theorem dismissed_record_evicted_counterexample:
  "toasts (memoryState (run initial [CallToast props_A, Dispatch (DISMISS_TOAST (Some ''1''))]))
     = [toast_A\<lparr>open := Some False\<rparr>]
   \<and> toasts (memoryState (run initial
        [CallToast props_A, Dispatch (DISMISS_TOAST (Some ''1'')), CallToast props_B]))
     = [toast_B]
   \<and> ''1'' \<notin> id_t ` set (toasts (memoryState (run initial
        [CallToast props_A, Dispatch (DISMISS_TOAST (Some ''1'')), CallToast props_B])))
   \<and> scheduled (env (run initial
        [CallToast props_A, Dispatch (DISMISS_TOAST (Some ''1'')), CallToast props_B]))
     = [(0, TOAST_REMOVE_DELAY, ''1'')]"
  by (simp add: run_def toast_def genId_def dispatch_def initial_def Let_def
      MAX_SAFE_INTEGER_def TOAST_LIMIT_def toString.simps toast_A_def toast_B_def
      new_toast_def addToRemoveQueue_def setTimeout_def)

section \<open>Properties of the translation store\<close>

subsection \<open>The fallback chain\<close>

lemma t_own:
  "dict key = Some tr \<Longrightarrow>
   t dict lang key = (or_key (or_js (tr lang) (tr en)) key, [])"
  by (simp add: t_def get_property_def)

lemma t_current: "dict key = Some tr \<Longrightarrow> tr lang = Some s \<Longrightarrow> s \<noteq> [] \<Longrightarrow>
   t dict lang key = (s, [])"
  by (simp add: t_own or_js_def or_key_def truthy_def)

lemma t_primary: "dict key = Some tr \<Longrightarrow> \<not> truthy (tr lang) \<Longrightarrow>
   tr en = Some s \<Longrightarrow> s \<noteq> [] \<Longrightarrow> t dict lang key = (s, [])"
  by (simp add: t_own or_js_def or_key_def)

lemma t_key: "dict key = Some tr \<Longrightarrow> \<not> truthy (tr lang) \<Longrightarrow>
   \<not> truthy (tr en) \<Longrightarrow> t dict lang key = (key, [])"
  by (auto simp: t_own or_js_def or_key_def truthy_def split: option.splits)

lemma t_only_primary:
  assumes "dict key = Some tr" "tr en = Some s" "s \<noteq> []"
    "\<not> truthy (tr fr)" "\<not> truthy (tr ar)"
  shows "t dict lang key = (s, [])"
proof (cases lang)
  case en
  with assms show ?thesis by (simp add: t_current)
next
  case fr
  with assms show ?thesis by (simp add: t_primary)
next
  case ar
  with assms show ?thesis by (simp add: t_primary)
qed

text \<open>
  C2. For a key that the dictionary holds, with entry \<open>tr\<close>, and every selected language
  \<open>lang\<close>: \<open>t\<close> returns the string of \<open>lang\<close> when the entry has one; when that string is
  absent it returns the primary (English) string; when that is absent too it returns the
  key; and no warning is emitted. A string is absent when \<^verbatim>\<open>||\<close> passes it over, that is
  when it is \<^verbatim>\<open>undefined\<close> or empty (\<open>\<not> truthy\<close>). Hence a key that carries only a
  primary string resolves to that string under every language.
\<close>

theorem fallback_chain:
  assumes "dict key = Some tr"
  shows "(tr lang = Some s \<longrightarrow> s \<noteq> [] \<longrightarrow> t dict lang key = (s, []))
   \<and> (\<not> truthy (tr lang) \<longrightarrow> tr en = Some s \<longrightarrow> s \<noteq> [] \<longrightarrow>
        t dict lang key = (s, []))
   \<and> (\<not> truthy (tr lang) \<longrightarrow> \<not> truthy (tr en) \<longrightarrow> t dict lang key = (key, []))
   \<and> (tr en = Some s \<longrightarrow> s \<noteq> [] \<longrightarrow> \<not> truthy (tr fr) \<longrightarrow> \<not> truthy (tr ar) \<longrightarrow>
        (\<forall>l. t dict l key = (s, [])))"
  using assms t_current [of dict key tr lang s] t_primary [of dict key tr lang s]
    t_key [of dict key tr lang] t_only_primary [of dict key tr s]
  by blast

lemma hero_title:
  "\<exists>tr. translations_table ''hero.title'' = Some tr
     \<and> tr en = Some ''Smart Queue Management''
     \<and> tr fr = Some ''Gestion intelligente des files''"
  by (simp add: translations_table_def entry_def)

theorem fallback_chain_witness:
  "t translations_table fr ''hero.title'' = (''Gestion intelligente des files'', [])
   \<and> t sample_translations ar ''farewell'' = (''wadaean'', [])
   \<and> t sample_translations fr ''farewell'' = (''Goodbye'', [])
   \<and> t sample_translations fr ''blank'' = (''blank'', [])
   \<and> (\<forall>l. t sample_translations l ''greeting'' = (''Hello'', []))"
proof -
  obtain tr where h: "translations_table ''hero.title'' = Some tr"
    and hf: "tr fr = Some ''Gestion intelligente des files''"
    using hero_title by blast
  have 1: "t translations_table fr ''hero.title'' = (''Gestion intelligente des files'', [])"
    using fallback_chain [of translations_table "''hero.title''" tr fr
        "''Gestion intelligente des files''"] h hf
    by simp
  have f: "sample_translations ''farewell'' = Some (entry ''Goodbye'' '''' ''wadaean'')"
    and b: "sample_translations ''blank'' = Some (entry '''' '''' '''')"
    and g: "sample_translations ''greeting'' = Some [en \<mapsto> ''Hello'']"
    by (simp_all add: sample_translations_def)
  have 2: "t sample_translations ar ''farewell'' = (''wadaean'', [])"
    using fallback_chain [of sample_translations "''farewell''" _ ar "''wadaean''"] f
    by (simp add: entry_def)
  have 3: "t sample_translations fr ''farewell'' = (''Goodbye'', [])"
    using fallback_chain [of sample_translations "''farewell''" _ fr "''Goodbye''"] f
    by (simp add: entry_def truthy_def)
  have 4: "t sample_translations fr ''blank'' = (''blank'', [])"
    using fallback_chain [of sample_translations "''blank''" _ fr] b
    by (simp add: entry_def truthy_def)
  have 5: "\<forall>l. t sample_translations l ''greeting'' = (''Hello'', [])"
    using fallback_chain [of sample_translations "''greeting''" _ en "''Hello''"] g
    by (simp add: truthy_def)
  from 1 2 3 4 5 show ?thesis by blast
qed

subsection \<open>Empty strings\<close>

lemma or_key_nonempty: "key \<noteq> [] \<Longrightarrow> or_key v key \<noteq> []"
  by (simp add: or_key_def split: option.splits)

text \<open>
  C10. An empty string counts as absent in the fallback chain: for a key that the
  dictionary holds, when the string of the current language is empty \<open>t\<close> returns the
  primary (English) string, and when that is empty too it returns the key. So for a
  non-empty key that the dictionary holds \<open>t\<close> never returns the empty string.
\<close>

theorem empty_string_counts_as_absent:
  assumes "dict key = Some tr"
  shows "(tr lang = Some [] \<longrightarrow> tr en = Some s \<longrightarrow> s \<noteq> [] \<longrightarrow> t dict lang key = (s, []))
   \<and> (tr lang = Some [] \<longrightarrow> tr en = Some [] \<longrightarrow> t dict lang key = (key, []))
   \<and> (key \<noteq> [] \<longrightarrow> fst (t dict lang key) \<noteq> [])"
proof -
  have "\<not> truthy (tr lang)" if "tr lang = Some []"
    using that by (simp add: truthy_def)
  moreover have "\<not> truthy (tr en)" if "tr en = Some []"
    using that by (simp add: truthy_def)
  moreover have "fst (t dict lang key) \<noteq> []" if "key \<noteq> []"
    using that t_own [of dict key tr lang] assms by (simp add: or_key_nonempty)
  ultimately show ?thesis
    using t_primary [of dict key tr lang s] t_key [of dict key tr lang] assms
    by blast
qed

theorem empty_string_counts_as_absent_witness:
  "sample_translations ''farewell'' = Some (entry ''Goodbye'' '''' ''wadaean'')
   \<and> entry ''Goodbye'' '''' ''wadaean'' fr = Some []
   \<and> t sample_translations fr ''farewell'' = (''Goodbye'', [])
   \<and> fst (t sample_translations fr ''farewell'') \<noteq> []
   \<and> sample_translations ''blank'' = Some (entry '''' '''' '''')
   \<and> t sample_translations ar ''blank'' = (''blank'', [])"
proof -
  have f: "sample_translations ''farewell'' = Some (entry ''Goodbye'' '''' ''wadaean'')"
    and b: "sample_translations ''blank'' = Some (entry '''' '''' '''')"
    by (simp_all add: sample_translations_def)
  have e: "entry ''Goodbye'' '''' ''wadaean'' fr = Some []"
    "entry ''Goodbye'' '''' ''wadaean'' en = Some ''Goodbye''"
    "entry '''' '''' '''' ar = Some []" "entry '''' '''' '''' en = Some []"
    by (simp_all add: entry_def)
  have n: "''Goodbye'' \<noteq> []" "''farewell'' \<noteq> []" by simp_all
  from empty_string_counts_as_absent [of sample_translations "''farewell''"
      "entry ''Goodbye'' [] ''wadaean''" fr "''Goodbye''"]
    empty_string_counts_as_absent [of sample_translations "''blank''" "entry [] [] []" ar]
    f b e n
  show ?thesis
    by blast
qed

subsection \<open>Keys the dictionary does not hold\<close>

lemma t_missing:
  "dict key = None \<Longrightarrow> key \<notin> set Object_prototype \<Longrightarrow>
   t dict lang key = (key, [''Translation missing for key: '' @ key])"
  by (simp add: t_def get_property_def)

lemma t_inherited:
  "dict key = None \<Longrightarrow> key \<in> set Object_prototype \<Longrightarrow> t dict lang key = (key, [])"
  by (simp add: t_def get_property_def or_js_def or_key_def truthy_def)

lemma nonexistent_key: "translations_table ''nonexistent.key'' = None"
  by (simp add: translations_table_def)

lemma constructor_key: "translations_table ''constructor'' = None"
  by (simp add: translations_table_def)

text \<open>
  C6 at the application's dictionary. The key \<open>''nonexistent.key''\<close> resolves to itself
  with one warning. The key \<open>''constructor''\<close> is not in the dictionary either and
  resolves to itself, but without a warning: \<^verbatim>\<open>translations['constructor']\<close> is the
  function inherited from \<^verbatim>\<open>Object.prototype\<close>, which \<^verbatim>\<open>!translation\<close> does not catch.
\<close>

theorem inherited_key_no_warning:
  "translations_table ''constructor'' = None
   \<and> t translations_table en ''constructor'' = (''constructor'', [])
   \<and> t translations_table fr ''constructor'' = (''constructor'', [])
   \<and> t translations_table ar ''constructor'' = (''constructor'', [])
   \<and> t translations_table en ''nonexistent.key'' =
       (''nonexistent.key'', [''Translation missing for key: nonexistent.key''])"
proof -
  have "''constructor'' \<in> set Object_prototype"
    and "''nonexistent.key'' \<notin> set Object_prototype"
    by (simp_all add: Object_prototype_def)
  then show ?thesis
    using t_inherited [of translations_table "''constructor''"]
      t_missing [of translations_table "''nonexistent.key''" en]
    by (simp add: constructor_key nonexistent_key)
qed

subsection \<open>The hook outside a provider\<close>

text \<open>
  C9. Called without an enclosing \<^verbatim>\<open>TranslationProvider\<close>, \<^verbatim>\<open>useTranslation\<close> throws
  its error and returns no value; under a provider it returns the provider's value.
\<close>

theorem useTranslation_outside_provider:
  "useTranslation [] = Inl (Error ''useTranslation must be used within TranslationProvider'')
   \<and> (\<forall>c. useTranslation [] \<noteq> Inr c)
   \<and> useTranslation (c # cs) = Inr c"
  by (simp add: useTranslation_def useContext_def)

theorem useTranslation_outside_provider_witness:
  "useTranslation [] \<noteq> Inr TranslationProvider
   \<and> useTranslation [setLanguage fr TranslationProvider] = Inr \<lparr>language = fr\<rparr>"
  using useTranslation_outside_provider [of "setLanguage fr TranslationProvider" "[]"]
  by (simp add: setLanguage_def TranslationProvider_def)

end
